theory Spec2Isabelle
  imports Complex_Main "HOL-Library.Word"
begin

section \<open>Values that cross the network boundary\<close>

text \<open>
  The two screens are React function components. Each keeps its state in \<open>useState\<close>
  cells and talks to the movie data provider with \<open>fetch\<close>. The model keeps the
  component state, the list of requests issued so far, the number of handler calls
  suspended at an \<open>await\<close>, and the console in one record per screen.

  An \<open>async\<close> handler runs in synchronous pieces separated by its \<open>await\<close>s. React
  (version 18, which \<open>next/navigation\<close> needs) applies all setter calls of one
  synchronous piece together and renders once afterwards, so a piece is one function
  from page to page, and the pages between pieces are the ones a user can observe.
\<close>

text \<open>What a \<open>catch\<close> clause can receive: an \<open>Error\<close> instance with its message, or any
  other thrown value (\<open>err instanceof Error\<close> is false).\<close>

datatype thrown = Error string | Non_Error

text \<open>A settled promise: rejected with a reason (\<open>Inl\<close>) or fulfilled with a value.\<close>

type_synonym 'a settled = "thrown + 'a"

text \<open>The part of a \<open>Response\<close> the code reads: the HTTP status (\<open>ok\<close> is derived from
  it) and what \<open>json()\<close> settles to.\<close>

record 'b response =
  status :: nat
  json :: "'b settled"

definition ok :: "'b response \<Rightarrow> bool" where
  "ok r = (200 \<le> status r \<and> status r \<le> 299)"

text \<open>\<open>process.env.NEXT_PUBLIC_TMDB_API_KEY\<close> is a string or \<open>undefined\<close>; a template
  literal prints the latter as the word \<open>undefined\<close>.\<close>

definition key_text :: "string option \<Rightarrow> string" where
  "key_text apiKey = (case apiKey of None \<Rightarrow> ''undefined'' | Some k \<Rightarrow> k)"

section \<open>encodeURIComponent\<close>

text \<open>
  A JavaScript string is a sequence of 16-bit code units. \<open>encodeURIComponent\<close> keeps
  the unreserved characters, writes every other code point as the percent-escaped bytes
  of its UTF-8 encoding, and throws a \<open>URIError\<close> on a surrogate that is not part of a
  pair (ECMAScript, abstract operation Encode).
\<close>

type_synonym utf16 = "16 word list"

definition utf16_of_ascii :: "string \<Rightarrow> utf16" where
  "utf16_of_ascii s = map (\<lambda>c. of_nat (of_char c)) s"

definition uri_unreserved :: "nat \<Rightarrow> bool" where
  "uri_unreserved u =
     ((65 \<le> u \<and> u \<le> 90) \<or> (97 \<le> u \<and> u \<le> 122) \<or> (48 \<le> u \<and> u \<le> 57) \<or>
      u \<in> {45, 95, 46, 33, 126, 42, 39, 40, 41})"

definition hex_digit :: "nat \<Rightarrow> char" where
  "hex_digit d = (if d < 10 then char_of (48 + d) else char_of (55 + d))"

definition percent_byte :: "nat \<Rightarrow> string" where
  "percent_byte b = [CHR ''%'', hex_digit (b div 16), hex_digit (b mod 16)]"

definition utf8_bytes :: "nat \<Rightarrow> nat list" where
  "utf8_bytes cp =
     (if cp < 128 then [cp]
      else if cp < 2048 then [192 + cp div 64, 128 + cp mod 64]
      else if cp < 65536 then [224 + cp div 4096, 128 + (cp div 64) mod 64, 128 + cp mod 64]
      else [240 + cp div 262144, 128 + (cp div 4096) mod 64,
            128 + (cp div 64) mod 64, 128 + cp mod 64])"

definition percent_code_point :: "nat \<Rightarrow> string" where
  "percent_code_point cp = concat (map percent_byte (utf8_bytes cp))"

definition is_lead_surrogate :: "nat \<Rightarrow> bool" where
  "is_lead_surrogate u = (55296 \<le> u \<and> u \<le> 56319)"

definition is_trail_surrogate :: "nat \<Rightarrow> bool" where
  "is_trail_surrogate u = (56320 \<le> u \<and> u \<le> 57343)"

definition surrogate_pair :: "nat \<Rightarrow> nat \<Rightarrow> nat" where
  "surrogate_pair hi lo = (hi - 55296) * 1024 + (lo - 56320) + 65536"

definition uri_error :: thrown where
  "uri_error = Error ''URI malformed''"

fun encode_units :: "nat list \<Rightarrow> thrown + string" where
  "encode_units [] = Inr []"
| "encode_units [u] =
     (if uri_unreserved u then Inr [char_of u]
      else if is_trail_surrogate u \<or> is_lead_surrogate u then Inl uri_error
      else Inr (percent_code_point u))"
| "encode_units (u # v # us) =
     (if uri_unreserved u then
        (case encode_units (v # us) of Inl e \<Rightarrow> Inl e | Inr r \<Rightarrow> Inr (char_of u # r))
      else if is_trail_surrogate u then Inl uri_error
      else if is_lead_surrogate u then
        (if is_trail_surrogate v then
           (case encode_units us of Inl e \<Rightarrow> Inl e
            | Inr r \<Rightarrow> Inr (percent_code_point (surrogate_pair u v) @ r))
         else Inl uri_error)
      else
        (case encode_units (v # us) of Inl e \<Rightarrow> Inl e
         | Inr r \<Rightarrow> Inr (percent_code_point u @ r)))"

definition encodeURIComponent :: "utf16 \<Rightarrow> thrown + string" where
  "encodeURIComponent s = encode_units (map unat s)"

text \<open>A string is well formed when every surrogate is half of a lead-trail pair.\<close>

fun well_formed_units :: "nat list \<Rightarrow> bool" where
  "well_formed_units [] = True"
| "well_formed_units [u] = (\<not> is_lead_surrogate u \<and> \<not> is_trail_surrogate u)"
| "well_formed_units (u # v # us) =
     (if is_trail_surrogate u then False
      else if is_lead_surrogate u then is_trail_surrogate v \<and> well_formed_units us
      else well_formed_units (v # us))"

definition well_formed :: "utf16 \<Rightarrow> bool" where
  "well_formed s = well_formed_units (map unat s)"

text \<open>The characters an encoded component can consist of.\<close>

definition uri_safe_char :: "char \<Rightarrow> bool" where
  "uri_safe_char c =
     (uri_unreserved (of_char c) \<or> c = CHR ''%'')"

section \<open>Numbers in template literals\<close>

text \<open>
  \<open>`${n}`\<close> applies Number::toString to a Number, which is an IEEE double. The model
  covers the Numbers that are integers (identifiers, a runtime in minutes) and names
  them by their value; a value that is not a double stands for the double that
  \<open>JSON.parse\<close> reads from its numeral, the nearest one, ties going to the even mantissa.
\<close>

definition digit_char :: "nat \<Rightarrow> char" where
  "digit_char d = char_of (48 + d)"

fun digits :: "nat \<Rightarrow> string" where
  "digits n = (if n < 10 then [digit_char n] else digits (n div 10) @ [digit_char (n mod 10)])"

declare digits.simps [simp del]

fun bit_length :: "nat \<Rightarrow> nat" where
  "bit_length n = (if n = 0 then 0 else Suc (bit_length (n div 2)))"

declare bit_length.simps [simp del]

definition to_number :: "nat \<Rightarrow> nat" where
  "to_number y =
     (if bit_length y \<le> 53 then y
      else
        let u = 2 ^ (bit_length y - 53); q = y div u; r = y mod u in
        if 2 * r < u \<or> (2 * r = u \<and> even q) then q * u else (q + 1) * u)"

text \<open>
  Number::toString looks for the decimal numeral with the fewest significant digits that
  reads back as the same Number: digits \<open>s\<close> followed by \<open>e\<close> zeros. \<open>shortest x e\<close> tries
  the multiples of \<open>10 ^ e\<close> on both sides of \<open>x\<close>, from many zeros down to none; of two
  that read back as \<open>x\<close> it takes the nearer one, and the even \<open>s\<close> at equal distance.
\<close>

fun shortest :: "nat \<Rightarrow> nat \<Rightarrow> nat \<times> nat" where
  "shortest x e =
     (if e = 0 then (x, 0)
      else
        let p = 10 ^ e; lo = x div p * p; hi = lo + p;
            lo_reads = (0 < lo \<and> to_number lo = x); hi_reads = (to_number hi = x) in
        if lo_reads \<and> (\<not> hi_reads \<or> x - lo < hi - x \<or> (x - lo = hi - x \<and> even (lo div p)))
        then (lo div p, e)
        else if hi_reads then (hi div p, e)
        else shortest x (e - 1))"

declare shortest.simps [simp del]

text \<open>
  Up to \<open>2^53 - 1\<close> every integer is a Number and its shortest numeral is its decimal
  numeral. Above, the value is rounded to a Number first; from \<open>2^1024\<close> on that is
  \<open>Infinity\<close>. A numeral of up to 21 digits is printed in full, a longer one in exponent
  form.
\<close>

definition print_number :: "nat \<Rightarrow> string" where
  "print_number y =
     (if y \<le> 9007199254740991 then digits y
      else
        let x = to_number y in
        if 2 ^ 1024 \<le> x then ''Infinity''
        else
          let (s, e) = shortest x (length (digits x)); ds = digits s; n = length ds + e in
          if n \<le> 21 then ds @ replicate e CHR ''0''
          else if length ds = 1 then ds @ ''e+'' @ digits (n - 1)
          else hd ds # CHR ''.'' # tl ds @ ''e+'' @ digits (n - 1))"

definition number_to_string :: "int \<Rightarrow> string" where
  "number_to_string n =
     (if n < 0 then CHR ''-'' # print_number (nat (- n)) else print_number (nat n))"

text \<open>Reading a decimal numeral back, to say what the digits mean.\<close>

definition digit_value :: "char \<Rightarrow> nat" where
  "digit_value c = of_char c - 48"

definition decimal_value :: "string \<Rightarrow> nat" where
  "decimal_value s = foldl (\<lambda>a c. 10 * a + digit_value c) 0 s"

section \<open>The search screen\<close>

record Movie =
  mv_id :: int
  mv_title :: string
  mv_release_date :: string
  mv_poster_path :: "string option"

text \<open>
  The body of the search response is untyped in the source (\<open>data\<close> is \<open>any\<close>). Reading
  \<open>data.results\<close> throws a TypeError when the body is \<open>null\<close>; on any other body it
  gives the array, or a value that \<open>|| []\<close> replaces by the empty array when the field is
  missing or falsy.
\<close>

datatype SearchData = Null_body | Body "Movie list option"

record search_page =
  query :: utf16
  movies :: "Movie list"
  loading :: bool
  requests :: "string list"
  awaiting :: nat
  console :: "(string \<times> thrown) list"

definition Home_initial :: search_page where
  "Home_initial = \<lparr>query = [], movies = [], loading = False,
                    requests = [], awaiting = 0, console = []\<rparr>"

definition setQuery :: "utf16 \<Rightarrow> search_page \<Rightarrow> search_page" where
  "setQuery q w = w\<lparr>query := q\<rparr>"

definition setMovies :: "Movie list \<Rightarrow> search_page \<Rightarrow> search_page" where
  "setMovies ms w = w\<lparr>movies := ms\<rparr>"

definition setLoading :: "bool \<Rightarrow> search_page \<Rightarrow> search_page" where
  "setLoading b w = w\<lparr>loading := b\<rparr>"

definition console_error :: "string \<Rightarrow> thrown \<Rightarrow> search_page \<Rightarrow> search_page" where
  "console_error label err w = w\<lparr>console := console w @ [(label, err)]\<rparr>"

definition fetch :: "string \<Rightarrow> search_page \<Rightarrow> search_page" where
  "fetch url w = w\<lparr>requests := requests w @ [url], awaiting := Suc (awaiting w)\<rparr>"

definition search_url :: "string option \<Rightarrow> string \<Rightarrow> string" where
  "search_url apiKey q =
     ''https://api.themoviedb.org/3/search/movie?api_key='' @ key_text apiKey @ ''&query='' @ q"

text \<open>The \<open>catch\<close> and \<open>finally\<close> blocks of \<open>handleSearch\<close> (lines 37 to 42).\<close>

definition handleSearch_catch :: "thrown \<Rightarrow> search_page \<Rightarrow> search_page" where
  "handleSearch_catch err w =
     setLoading False (setMovies [] (console_error ''Error searching movies:'' err w))"

text \<open>
  \<open>handleSearch\<close> up to its first \<open>await\<close> (lines 23 to 34). An empty query returns at
  once. The URL is built inside the \<open>try\<close>, so a \<open>URIError\<close> from \<open>encodeURIComponent\<close>
  goes to the \<open>catch\<close> block before any request is made.
\<close>

definition handleSearch_submit :: "string option \<Rightarrow> search_page \<Rightarrow> search_page" where
  "handleSearch_submit apiKey w =
     (if query w = [] then w
      else
        let w1 = setMovies [] (setLoading True w) in
        (case encodeURIComponent (query w) of
           Inl err \<Rightarrow> handleSearch_catch err w1
         | Inr q \<Rightarrow> fetch (search_url apiKey q) w1))"

text \<open>What \<open>data.results || []\<close> evaluates to once the request has settled (lines 30 to
  36): a rejected \<open>fetch\<close>, a rejected \<open>json()\<close> and a \<open>null\<close> body all throw. The HTTP status
  is not looked at.\<close>

definition null_results_error :: thrown where
  "null_results_error = Error ''Cannot read properties of null (reading 'results')''"

definition search_results :: "SearchData response settled \<Rightarrow> thrown + Movie list" where
  "search_results r =
     (case r of
        Inl err \<Rightarrow> Inl err
      | Inr res \<Rightarrow>
          (case json res of
             Inl err \<Rightarrow> Inl err
           | Inr Null_body \<Rightarrow> Inl null_results_error
           | Inr (Body None) \<Rightarrow> Inr []
           | Inr (Body (Some ms)) \<Rightarrow> Inr ms))"

text \<open>\<open>handleSearch\<close> from the moment its request settles to its end (lines 35 to 42).\<close>

definition handleSearch_settle :: "SearchData response settled \<Rightarrow> search_page \<Rightarrow> search_page" where
  "handleSearch_settle r w =
     (let w0 = w\<lparr>awaiting := awaiting w - 1\<rparr> in
      case search_results r of
        Inl err \<Rightarrow> handleSearch_catch err w0
      | Inr ms \<Rightarrow> setLoading False (setMovies ms w0))"

text \<open>One submission run to its end with nothing in between: the second piece runs only
  when the first one reached the \<open>await\<close>.\<close>

definition handleSearch :: "string option \<Rightarrow> SearchData response settled \<Rightarrow> search_page \<Rightarrow> search_page" where
  "handleSearch apiKey r w =
     (if query w = [] then w
      else
        (case encodeURIComponent (query w) of
           Inl err \<Rightarrow> handleSearch_submit apiKey w
         | Inr q \<Rightarrow> handleSearch_settle r (handleSearch_submit apiKey w)))"

text \<open>
  What can happen to the search screen: the user edits the text, the user submits the
  form, or the request of a suspended \<open>handleSearch\<close> settles. Nothing cancels a request, so
  submissions may overlap and settle in any order.
\<close>

datatype search_event = Change utf16 | Submit | Settle "SearchData response settled"

fun search_step :: "string option \<Rightarrow> search_page \<Rightarrow> search_event \<Rightarrow> search_page" where
  "search_step apiKey w (Change q) = setQuery q w"
| "search_step apiKey w Submit = handleSearch_submit apiKey w"
| "search_step apiKey w (Settle r) = (if awaiting w = 0 then w else handleSearch_settle r w)"

definition search_run :: "string option \<Rightarrow> search_event list \<Rightarrow> search_page" where
  "search_run apiKey evs = foldl (search_step apiKey) Home_initial evs"

text \<open>The state a user must never see: a result list together with the loading flag.\<close>

definition never_both :: "search_page \<Rightarrow> bool" where
  "never_both w = (\<not> (loading w \<and> movies w \<noteq> []))"

subsection \<open>What the search screen shows\<close>

record MovieCard =
  href :: string
  img_src :: "string option"
  heading :: string
  year :: "string option"

definition movie_card :: "Movie \<Rightarrow> MovieCard" where
  "movie_card m =
     \<lparr>href = ''/movie/'' @ number_to_string (mv_id m),
      img_src = (case mv_poster_path m of
                   None \<Rightarrow> None
                 | Some p \<Rightarrow> if p = [] then None else Some (''https://image.tmdb.org/t/p/w500'' @ p)),
      heading = mv_title m,
      year = (if mv_release_date m = [] then None else Some (take 4 (mv_release_date m)))\<rparr>"

record search_view =
  input_value :: utf16
  button_label :: string
  spinner :: bool
  results_grid :: "MovieCard list option"
  no_movies_found :: bool

definition Home :: "search_page \<Rightarrow> search_view" where
  "Home w =
     \<lparr>input_value = query w,
      button_label = (if loading w then ''Searching...'' else ''Search''),
      spinner = loading w,
      results_grid = (if \<not> loading w \<and> length (movies w) > 0
                      then Some (map movie_card (movies w)) else None),
      no_movies_found = (\<not> loading w \<and> query w \<noteq> [] \<and> length (movies w) = 0)\<rparr>"

section \<open>The detail screen\<close>

record Genre =
  g_id :: int
  g_name :: string

record MovieDetail =
  md_id :: int
  md_title :: string
  md_overview :: string
  md_release_date :: string
  md_poster_path :: "string option"
  md_backdrop_path :: "string option"
  md_genres :: "Genre list"
  md_runtime :: int
  md_vote_average :: rat

record CastMember =
  cast_id :: int
  character :: string
  name :: string
  profile_path :: "string option"

record Credits =
  cast :: "CastMember list"

record detail_page =
  movie :: "MovieDetail option"
  credits :: "Credits option"
  detail_loading :: bool
  error :: "string option"
  detail_requests :: "string list"
  detail_awaiting :: nat
  detail_console :: "(string \<times> thrown) list"
  deps :: "string option option"

text \<open>
  \<open>movie\<close> and \<open>credits\<close> are the state cells of lines 38 and 39, \<open>null\<close> being \<open>None\<close>.
  \<open>deps\<close> is the dependency array \<open>[id]\<close> of the effect (line 84) as of the last render,
  and \<open>None\<close> before the first one.

  The \<open>useState\<close> initial values (lines 38 to 41): the screen starts loading.
\<close>

definition MovieDetailPage_initial :: detail_page where
  "MovieDetailPage_initial =
     \<lparr>movie = None, credits = None, detail_loading = True, error = None,
      detail_requests = [], detail_awaiting = 0, detail_console = [], deps = None\<rparr>"

definition setMovie :: "MovieDetail option \<Rightarrow> detail_page \<Rightarrow> detail_page" where
  "setMovie m w = w\<lparr>movie := m\<rparr>"

definition setCredits :: "Credits option \<Rightarrow> detail_page \<Rightarrow> detail_page" where
  "setCredits c w = w\<lparr>credits := c\<rparr>"

definition setDetailLoading :: "bool \<Rightarrow> detail_page \<Rightarrow> detail_page" where
  "setDetailLoading b w = w\<lparr>detail_loading := b\<rparr>"

definition setError :: "string option \<Rightarrow> detail_page \<Rightarrow> detail_page" where
  "setError e w = w\<lparr>error := e\<rparr>"

definition detail_console_error :: "string \<Rightarrow> thrown \<Rightarrow> detail_page \<Rightarrow> detail_page" where
  "detail_console_error label err w = w\<lparr>detail_console := detail_console w @ [(label, err)]\<rparr>"

definition movie_url :: "string option \<Rightarrow> string \<Rightarrow> string" where
  "movie_url apiKey i =
     ''https://api.themoviedb.org/3/movie/'' @ i @ ''?api_key='' @ key_text apiKey @ ''&language=en-US''"

definition credits_url :: "string option \<Rightarrow> string \<Rightarrow> string" where
  "credits_url apiKey i =
     ''https://api.themoviedb.org/3/movie/'' @ i @ ''/credits?api_key='' @ key_text apiKey
       @ ''&language=en-US''"

text \<open>\<open>fetchMovieDetail\<close> up to \<open>await Promise.all\<close> (lines 47 to 58): both requests are
  issued, one handler call is suspended.\<close>

definition fetchMovieDetail_start :: "string option \<Rightarrow> string \<Rightarrow> detail_page \<Rightarrow> detail_page" where
  "fetchMovieDetail_start apiKey i w =
     (let w1 = setError None (setDetailLoading True w) in
      w1\<lparr>detail_requests := detail_requests w1 @ [movie_url apiKey i, credits_url apiKey i],
         detail_awaiting := Suc (detail_awaiting w1)\<rparr>)"

text \<open>
  The effect of lines 43 to 84 at a render with the route parameter \<open>ident\<close>. React runs
  the effect after the first render and after a render whose \<open>id\<close> differs from the one
  of the render before; with an unchanged \<open>id\<close> nothing happens. The route parameter may
  be missing (\<open>undefined\<close>) or empty; both are falsy, and the effect returns at line 44.
\<close>

definition useEffect :: "string option \<Rightarrow> string option \<Rightarrow> detail_page \<Rightarrow> detail_page" where
  "useEffect apiKey ident w =
     (if deps w = Some ident then w
      else
        let w1 = w\<lparr>deps := Some ident\<rparr> in
        (case ident of
           None \<Rightarrow> w1
         | Some i \<Rightarrow> if i = [] then w1 else fetchMovieDetail_start apiKey i w1))"

text \<open>
  The body of the \<open>try\<close> block once \<open>Promise.all\<close> has settled (lines 51 to 69).
  \<open>Promise.all\<close> rejects with the reason of the request that rejected first, or is
  fulfilled with both responses. The bodies are parsed only when both statuses are
  successful, the movie body first. A body is not validated: what \<open>json()\<close> gives is
  stored as it is, and it may be \<open>null\<close> (\<open>None\<close>).
\<close>

definition fetchMovieDetail_try ::
  "(MovieDetail option response \<times> Credits option response) settled
     \<Rightarrow> thrown + (MovieDetail option \<times> Credits option)" where
  "fetchMovieDetail_try both =
     (case both of
        Inl err \<Rightarrow> Inl err
      | Inr (movieRes, creditsRes) \<Rightarrow>
          if \<not> ok movieRes then Inl (Error ''Failed to fetch movie details.'')
          else if \<not> ok creditsRes then Inl (Error ''Failed to fetch credits.'')
          else
            (case json movieRes of
               Inl err \<Rightarrow> Inl err
             | Inr movieData \<Rightarrow>
                 (case json creditsRes of
                    Inl err \<Rightarrow> Inl err
                  | Inr creditsData \<Rightarrow> Inr (movieData, creditsData))))"

definition error_message :: "thrown \<Rightarrow> string" where
  "error_message err = (case err of Error m \<Rightarrow> m | Non_Error \<Rightarrow> ''An unexpected error occurred.'')"

text \<open>\<open>fetchMovieDetail\<close> from the settling of \<open>Promise.all\<close> to its end (lines 60 to 80).
  The awaits of the two \<open>json()\<close> calls lie in between, but no setter is called before the
  last piece, so the page changes once.\<close>

definition fetchMovieDetail_settle ::
  "(MovieDetail option response \<times> Credits option response) settled
     \<Rightarrow> detail_page \<Rightarrow> detail_page" where
  "fetchMovieDetail_settle both w =
     (let w0 = w\<lparr>detail_awaiting := detail_awaiting w - 1\<rparr> in
      case fetchMovieDetail_try both of
        Inr (movieData, creditsData) \<Rightarrow>
          setDetailLoading False (setCredits creditsData (setMovie movieData w0))
      | Inl err \<Rightarrow>
          setDetailLoading False
            (setError (Some (error_message err))
               (detail_console_error ''Error fetching movie details:'' err w0)))"

text \<open>One run of \<open>fetchMovieDetail\<close> from start to end with nothing in between.\<close>

definition fetchMovieDetail ::
  "string option \<Rightarrow> string
     \<Rightarrow> (MovieDetail option response \<times> Credits option response) settled
     \<Rightarrow> detail_page \<Rightarrow> detail_page" where
  "fetchMovieDetail apiKey i both w =
     fetchMovieDetail_settle both (fetchMovieDetail_start apiKey i w)"

subsection \<open>What the detail screen shows\<close>

text \<open>The rating line is \<open>N/A\<close> or the template \<open>${movie.vote_average}/10\<close>. The printing
  of a Number that is not an integer is not modelled; the view keeps the number.\<close>

datatype rating_text = Rating_NA | Out_of_ten rat

record CastCard =
  card_img :: "string option"
  card_name :: string
  card_role :: string

record DetailView =
  page_title :: string
  backdrop :: "string option"
  poster :: "string option"
  title_heading :: string
  overview_text :: string
  release_date_text :: string
  runtime_text :: string
  genre_chips :: "string list option"
  rating :: rating_text
  cast_section :: "CastCard list option"

definition image_url :: "string \<Rightarrow> string option \<Rightarrow> string option" where
  "image_url sz path =
     (case path of
        None \<Rightarrow> None
      | Some p \<Rightarrow> if p = [] then None else Some (''https://image.tmdb.org/t/p/'' @ sz @ p))"

definition cast_card :: "CastMember \<Rightarrow> CastCard" where
  "cast_card member =
     \<lparr>card_img = image_url ''w200'' (profile_path member),
      card_name = name member,
      card_role = ''as '' @ character member\<rparr>"

text \<open>The runtime line (line 214), the rating line (line 251) and the Cast section (lines
  258 to 299). \<open>0\<close> is falsy, so a runtime or a rating of zero takes the \<open>N/A\<close> branch.\<close>

definition render_runtime :: "MovieDetail \<Rightarrow> string" where
  "render_runtime m =
     (if md_runtime m \<noteq> 0 then number_to_string (md_runtime m) @ '' minutes'' else ''N/A'')"

definition render_rating :: "MovieDetail \<Rightarrow> rating_text" where
  "render_rating m =
     (if md_vote_average m \<noteq> 0 then Out_of_ten (md_vote_average m) else Rating_NA)"

definition render_cast :: "Credits option \<Rightarrow> CastCard list option" where
  "render_cast cr =
     (case cr of
        None \<Rightarrow> None
      | Some c \<Rightarrow> if length (cast c) > 0 then Some (map cast_card (take 10 (cast c))) else None)"

definition detail_view :: "MovieDetail \<Rightarrow> Credits option \<Rightarrow> DetailView" where
  "detail_view m cr =
     \<lparr>page_title = md_title m @ '' - Movie Details'',
      backdrop = image_url ''original'' (md_backdrop_path m),
      poster = image_url ''w500'' (md_poster_path m),
      title_heading = md_title m,
      overview_text = (if md_overview m \<noteq> [] then md_overview m else ''No description available.''),
      release_date_text = (if md_release_date m \<noteq> [] then md_release_date m else ''N/A''),
      runtime_text = render_runtime m,
      genre_chips = (if length (md_genres m) > 0 then Some (map g_name (md_genres m)) else None),
      rating = render_rating m,
      cast_section = render_cast cr\<rparr>"

text \<open>The component's return value (lines 86 to 302): the first test that holds decides.
  An \<open>error\<close> that is \<open>null\<close> or the empty string is falsy.\<close>

datatype screen = Spinner | Error_screen string | Blank | Ready DetailView

definition render_movie :: "detail_page \<Rightarrow> screen" where
  "render_movie w =
     (case movie w of None \<Rightarrow> Blank | Some m \<Rightarrow> Ready (detail_view m (credits w)))"

definition MovieDetailPage :: "detail_page \<Rightarrow> screen" where
  "MovieDetailPage w =
     (if detail_loading w then Spinner
      else
        (case error w of
           None \<Rightarrow> render_movie w
         | Some e \<Rightarrow> if e \<noteq> [] then Error_screen e else render_movie w))"

text \<open>The test \<open>if (error)\<close> of line 98: an error message is shown when \<open>error\<close> is
  neither \<open>null\<close> nor the empty string.\<close>

definition error_set :: "detail_page \<Rightarrow> bool" where
  "error_set w = (case error w of None \<Rightarrow> False | Some e \<Rightarrow> e \<noteq> [])"

section \<open>Sample data\<close>

text \<open>The inputs of the scenarios: a search for \<open>Matrix\<close> with two results, and a query
  that consists of one lead surrogate (half of an emoji).\<close>

definition the_matrix :: Movie where
  "the_matrix = \<lparr>mv_id = 1, mv_title = ''The Matrix'', mv_release_date = ''1999-03-31'',
                  mv_poster_path = Some ''/a.jpg''\<rparr>"

definition matrix_reloaded :: Movie where
  "matrix_reloaded = \<lparr>mv_id = 2, mv_title = ''Matrix Reloaded'', mv_release_date = ''2003-05-07'',
                       mv_poster_path = None\<rparr>"

definition matrix_response :: "SearchData response" where
  "matrix_response = \<lparr>status = 200, json = Inr (Body (Some [the_matrix, matrix_reloaded]))\<rparr>"

definition typed_matrix :: search_page where
  "typed_matrix = setQuery (utf16_of_ascii ''Matrix'') Home_initial"

definition typed_lone_surrogate :: search_page where
  "typed_lone_surrogate = setQuery [0xD83D] Home_initial"

text \<open>A successful answer without results, the answer of a gateway whose body is not JSON,
  and the search screen once the two results for \<open>Matrix\<close> have arrived.\<close>

definition empty_response :: "SearchData response" where
  "empty_response = \<lparr>status = 200, json = Inr (Body (Some []))\<rparr>"

definition gateway_error_response :: "SearchData response" where
  "gateway_error_response =
     \<lparr>status = 502, json = Inl (Error ''Unexpected token < in JSON at position 0'')\<rparr>"

definition matrix_shown :: search_page where
  "matrix_shown = handleSearch (Some ''KEY'') (Inr matrix_response) typed_matrix"

text \<open>The search screen while a second search for \<open>Matrix\<close> is still under way and the
  first one has delivered its two results.\<close>

definition matrix_shown_one_pending :: search_page where
  "matrix_shown_one_pending =
     search_run (Some ''KEY'')
       [Change (utf16_of_ascii ''Matrix''), Submit, Submit, Settle (Inr matrix_response)]"

text \<open>The detail scenario: movie 603 with twelve cast members, answers with status 200,
  a credits answer with status 404 (its body is never read), the screen after a
  successful fetch, the screen after the route changed to identifier 604 and the credits
  request of that fetch failed, and the screen after a rejection with an empty message.\<close>

definition cast_member :: "int \<Rightarrow> string \<Rightarrow> CastMember" where
  "cast_member k n =
     \<lparr>cast_id = k, character = ''Role of '' @ n, name = n,
      profile_path = (if even k then Some (''/'' @ n @ ''.jpg'') else None)\<rparr>"

definition movie_603 :: MovieDetail where
  "movie_603 =
     \<lparr>md_id = 603, md_title = ''The Matrix'', md_overview = ''A hacker learns the truth.'',
      md_release_date = ''1999-03-31'', md_poster_path = Some ''/p.jpg'',
      md_backdrop_path = None, md_genres = [\<lparr>g_id = 28, g_name = ''Action''\<rparr>],
      md_runtime = 136, md_vote_average = 8\<rparr>"

definition credits_603 :: Credits where
  "credits_603 =
     \<lparr>cast = [cast_member 1 ''Ann'', cast_member 2 ''Bob'', cast_member 3 ''Cy'',
              cast_member 4 ''Dee'', cast_member 5 ''Eve'', cast_member 6 ''Fay'',
              cast_member 7 ''Gus'', cast_member 8 ''Hal'', cast_member 9 ''Ida'',
              cast_member 10 ''Jo'', cast_member 11 ''Kim'', cast_member 12 ''Lee'']\<rparr>"

definition movie_found :: "MovieDetail \<Rightarrow> MovieDetail option response" where
  "movie_found m = \<lparr>status = 200, json = Inr (Some m)\<rparr>"

definition credits_found :: "Credits \<Rightarrow> Credits option response" where
  "credits_found c = \<lparr>status = 200, json = Inr (Some c)\<rparr>"

definition credits_not_found :: "Credits option response" where
  "credits_not_found = \<lparr>status = 404, json = Inl (Error ''Unexpected end of JSON input'')\<rparr>"

definition ready_603 :: detail_page where
  "ready_603 =
     fetchMovieDetail_settle (Inr (movie_found movie_603, credits_found credits_603))
       (useEffect (Some ''KEY'') (Some ''603'') MovieDetailPage_initial)"

definition stale_error_page :: detail_page where
  "stale_error_page =
     fetchMovieDetail_settle (Inr (movie_found movie_603, credits_not_found))
       (useEffect (Some ''KEY'') (Some ''604'') ready_603)"

definition blank_page :: detail_page where
  "blank_page =
     fetchMovieDetail_settle (Inl (Error []))
       (useEffect (Some ''KEY'') (Some ''603'') MovieDetailPage_initial)"

text \<open>A second answer for movie 603, with runtime and rating zero and no cast, and the
  screen after the route went from 603 to 604 and back to 603 and the flow got that
  answer.\<close>

definition movie_603_unrated :: MovieDetail where
  "movie_603_unrated = movie_603\<lparr>md_runtime := 0, md_vote_average := 0\<rparr>"

definition unrated_603 :: detail_page where
  "unrated_603 =
     fetchMovieDetail_settle (Inr (movie_found movie_603_unrated, credits_found \<lparr>cast = []\<rparr>))
       (useEffect (Some ''KEY'') (Some ''603'') stale_error_page)"






text \<open>Movie 603 with a runtime of \<open>10^21\<close> minutes, and the screen of a fresh mount that got
  it.\<close>

definition movie_603_endless :: MovieDetail where
  "movie_603_endless = movie_603\<lparr>md_runtime := 1000000000000000000000\<rparr>"

definition endless_603 :: detail_page where
  "endless_603 =
     fetchMovieDetail_settle (Inr (movie_found movie_603_endless, credits_found credits_603))
       (useEffect (Some ''KEY'') (Some ''603'') MovieDetailPage_initial)"

section \<open>Properties of the encoder and of the decimal numerals\<close>

lemmas enc_eval =
  encodeURIComponent_def uri_unreserved_def is_lead_surrogate_def is_trail_surrogate_def
  percent_code_point_def utf8_bytes_def percent_byte_def hex_digit_def surrogate_pair_def
  char_of_def bit_Suc_0_iff

lemma unreserved_not_surrogate:
  "uri_unreserved u \<Longrightarrow> \<not> is_lead_surrogate u \<and> \<not> is_trail_surrogate u"
  by (auto simp: uri_unreserved_def is_lead_surrogate_def is_trail_surrogate_def)

lemma encode_units_isl: "isl (encode_units us) \<longleftrightarrow> \<not> well_formed_units us"
  by (induction us rule: encode_units.induct)
     (auto simp: unreserved_not_surrogate split: sum.splits)

lemma unreserved_char_safe: "uri_unreserved u \<Longrightarrow> uri_safe_char (char_of u)"
proof -
  assume u: "uri_unreserved u"
  then have "u < 256" by (auto simp: uri_unreserved_def)
  then have "of_char (char_of u) = u" by (simp add: take_bit_eq_mod)
  with u show ?thesis by (simp add: uri_safe_char_def)
qed

lemma hex_digit_safe: "d < 16 \<Longrightarrow> uri_safe_char (hex_digit d)"
proof -
  assume d: "d < 16"
  have "of_char (hex_digit d) = (if d < 10 then 48 + d else 55 + d)"
    using d by (simp add: hex_digit_def take_bit_eq_mod)
  with d show ?thesis by (auto simp: uri_safe_char_def uri_unreserved_def)
qed

lemma percent_sign_safe: "uri_safe_char CHR ''%''"
  by (simp add: uri_safe_char_def)

lemma percent_byte_safe: "b < 256 \<Longrightarrow> \<forall>c\<in>set (percent_byte b). uri_safe_char c"
proof -
  assume "b < 256"
  then have "b div 16 < 16" by simp
  moreover have "b mod 16 < 16" by simp
  ultimately show ?thesis
    using hex_digit_safe [of "b div 16"] hex_digit_safe [of "b mod 16"] percent_sign_safe
    by (simp add: percent_byte_def)
qed

lemma utf8_bytes_bound: "cp < 1114112 \<Longrightarrow> \<forall>b\<in>set (utf8_bytes cp). b < 256"
  by (auto simp: utf8_bytes_def)

lemma percent_code_point_safe:
  "cp < 1114112 \<Longrightarrow> \<forall>c\<in>set (percent_code_point cp). uri_safe_char c"
  using utf8_bytes_bound percent_byte_safe by (fastforce simp: percent_code_point_def)

lemma surrogate_pair_bound:
  "is_lead_surrogate u \<Longrightarrow> is_trail_surrogate v \<Longrightarrow> surrogate_pair u v < 1114112"
proof -
  assume u: "is_lead_surrogate u" and v: "is_trail_surrogate v"
  from u have "u - 55296 \<le> 1023" unfolding is_lead_surrogate_def by arith
  then have "(u - 55296) * 1024 \<le> 1023 * 1024" by (rule mult_le_mono1)
  moreover from v have "v - 56320 \<le> 1023" unfolding is_trail_surrogate_def by arith
  ultimately show ?thesis unfolding surrogate_pair_def by arith
qed

lemma encode_units_safe:
  "\<forall>u\<in>set us. u < 65536 \<Longrightarrow> encode_units us = Inr r \<Longrightarrow> \<forall>c\<in>set r. uri_safe_char c"
proof (induction us arbitrary: r rule: encode_units.induct)
  case 1
  then show ?case by simp
next
  case (2 u)
  then show ?case
    using unreserved_char_safe [of u] percent_code_point_safe [of u]
    by (auto split: if_splits)
next
  case (3 u v us)
  then show ?case
    using unreserved_char_safe [of u] percent_code_point_safe [of u]
      percent_code_point_safe [OF surrogate_pair_bound, of u v]
    by (auto split: if_splits sum.splits)
qed

lemma encodeURIComponent_safe:
  "encodeURIComponent s = Inr r \<Longrightarrow> \<forall>c\<in>set r. uri_safe_char c"
proof -
  assume e: "encodeURIComponent s = Inr r"
  have "unat w < 65536" for w :: "16 word"
    using unsigned_less [of w, where 'a = nat] by simp
  then have "\<forall>u\<in>set (map unat s). u < 65536"
    by simp
  with e show ?thesis
    unfolding encodeURIComponent_def by (rule_tac encode_units_safe)
qed

lemma encodeURIComponent_well_formed:
  "well_formed s \<Longrightarrow> \<exists>r. encodeURIComponent s = Inr r"
  using encode_units_isl [of "map unat s"]
  by (cases "encode_units (map unat s)") (simp_all add: well_formed_def encodeURIComponent_def)

lemma encodeURIComponent_throws:
  "\<not> well_formed s \<Longrightarrow> \<exists>e. encodeURIComponent s = Inl e"
  using encode_units_isl [of "map unat s"]
  by (cases "encode_units (map unat s)") (simp_all add: well_formed_def encodeURIComponent_def)

lemma digits_value: "decimal_value (digits n) = n"
proof (induction n rule: digits.induct)
  case (1 n)
  show ?case
  proof (cases "n < 10")
    case True
    then show ?thesis
      by (subst digits.simps) (simp add: decimal_value_def digit_value_def digit_char_def)
  next
    case False
    with 1 show ?thesis
      by (subst digits.simps) (simp add: decimal_value_def digit_value_def digit_char_def)
  qed
qed

lemma digit_char_digit: "k < 10 \<Longrightarrow> digit_char k \<in> set ''0123456789''"
proof -
  assume "k < 10"
  then consider "k = 0" | "k = 1" | "k = 2" | "k = 3" | "k = 4" | "k = 5" | "k = 6" | "k = 7"
    | "k = 8" | "k = 9"
    by atomize_elim arith
  then show ?thesis
    by cases (simp_all add: digit_char_def char_of_def bit_Suc_0_iff)
qed

lemma digits_are_digits: "set (digits n) \<subseteq> set ''0123456789''"
proof (induction n rule: digits.induct)
  case (1 n)
  show ?case
  proof (cases "n < 10")
    case True
    then have "digits n = [digit_char n]" by (subst digits.simps) simp
    with True show ?thesis using digit_char_digit [of n] by simp
  next
    case False
    then have "digits n = digits (n div 10) @ [digit_char (n mod 10)]"
      by (subst digits.simps) simp
    moreover have "digit_char (n mod 10) \<in> set ''0123456789''"
      by (rule digit_char_digit) simp
    moreover from False 1 have "set (digits (n div 10)) \<subseteq> set ''0123456789''" by simp
    ultimately show ?thesis by simp
  qed
qed

lemma digit_char_not_zero: "0 < k \<Longrightarrow> k < 10 \<Longrightarrow> digit_char k \<noteq> CHR ''0''"
proof -
  assume "0 < k" and "k < 10"
  then consider "k = 1" | "k = 2" | "k = 3" | "k = 4" | "k = 5" | "k = 6" | "k = 7"
    | "k = 8" | "k = 9"
    by atomize_elim arith
  then show ?thesis
    by cases (simp_all add: digit_char_def char_of_def bit_Suc_0_iff)
qed

lemma digits_not_empty: "digits n \<noteq> []"
  by (subst digits.simps) simp

lemma digits_no_leading_zero: "0 < n \<Longrightarrow> hd (digits n) \<noteq> CHR ''0''"
proof (induction n rule: digits.induct)
  case (1 n)
  show ?case
  proof (cases "n < 10")
    case True
    then have "digits n = [digit_char n]" by (subst digits.simps) simp
    with True 1(2) show ?thesis by (simp add: digit_char_not_zero)
  next
    case False
    then have "digits n = digits (n div 10) @ [digit_char (n mod 10)]"
      by (subst digits.simps) simp
    then have "hd (digits n) = hd (digits (n div 10))"
      by (simp add: digits_not_empty)
    moreover from False have "0 < n div 10" by simp
    ultimately show ?thesis using 1(1) False by simp
  qed
qed

lemma number_to_string_safe:
  "0 \<le> n \<Longrightarrow> n \<le> 9007199254740991 \<Longrightarrow> number_to_string n = digits (nat n)"
proof -
  assume "0 \<le> n" and "n \<le> 9007199254740991"
  then have "nat n \<le> 9007199254740991" by arith
  with \<open>0 \<le> n\<close> show ?thesis by (simp add: number_to_string_def print_number_def)
qed

lemma number_to_string_positive:
  "0 < n \<Longrightarrow> n \<le> 9007199254740991 \<Longrightarrow>
     int (decimal_value (number_to_string n)) = n \<and>
     set (number_to_string n) \<subseteq> set ''0123456789'' \<and>
     hd (number_to_string n) \<noteq> CHR ''0''"
  using digits_are_digits [of "nat n"] digits_no_leading_zero [of "nat n"]
  by (simp add: number_to_string_safe digits_value)

text \<open>Number::toString at \<open>10^21\<close>, the first integer printed in exponent form.\<close>

lemma bit_length_10_21: "bit_length 1000000000000000000000 = 70"
  by (simp add: bit_length.simps)

lemma bit_length_10_22: "bit_length 10000000000000000000000 = 74"
  by (simp add: bit_length.simps)

lemma bit_length_2_10_21: "bit_length 2000000000000000000000 = 71"
  by (simp add: bit_length.simps)

lemma to_number_10_21: "to_number 1000000000000000000000 = 1000000000000000000000"
  by (simp add: to_number_def bit_length_10_21 Let_def)

lemma to_number_10_22: "to_number 10000000000000000000000 = 10000000000000000000000"
  by (simp add: to_number_def bit_length_10_22 Let_def)

lemma to_number_2_10_21: "to_number 2000000000000000000000 = 2000000000000000000000"
  by (simp add: to_number_def bit_length_2_10_21 Let_def)

lemma digits_10_21: "digits 1000000000000000000000 = ''1000000000000000000000''"
  by (simp add: digits.simps digit_char_def char_of_def bit_Suc_0_iff)

lemma length_digits_10_21: "length (digits 1000000000000000000000) = 22"
  by (simp add: digits_10_21)

lemma shortest_10_21: "shortest 1000000000000000000000 22 = (1, 21)"
  by (simp add: shortest.simps [of _ 22] shortest.simps [of _ 21]
      to_number_10_21 to_number_10_22 to_number_2_10_21 Let_def)

lemma print_number_10_21: "print_number 1000000000000000000000 = ''1e+21''"
  unfolding print_number_def to_number_10_21 length_digits_10_21 shortest_10_21 Let_def
  by (simp add: digits.simps digit_char_def char_of_def bit_Suc_0_iff)

lemma number_to_string_10_21: "number_to_string 1000000000000000000000 = ''1e+21''"
  by (simp add: number_to_string_def print_number_10_21)

section \<open>Properties of the search screen\<close>

lemmas search_defs =
  handleSearch_submit_def handleSearch_settle_def handleSearch_catch_def
  setMovies_def setLoading_def console_error_def fetch_def setQuery_def

lemma submit_empty: "query w = [] \<Longrightarrow> handleSearch_submit apiKey w = w"
  by (simp add: handleSearch_submit_def)

lemma submit_request:
  "query w \<noteq> [] \<Longrightarrow> encodeURIComponent (query w) = Inr q \<Longrightarrow>
   handleSearch_submit apiKey w =
     w\<lparr>movies := [], loading := True, requests := requests w @ [search_url apiKey q],
       awaiting := Suc (awaiting w)\<rparr>"
  by (simp add: search_defs)

lemma submit_throws:
  "query w \<noteq> [] \<Longrightarrow> encodeURIComponent (query w) = Inl err \<Longrightarrow>
   handleSearch_submit apiKey w =
     w\<lparr>movies := [], loading := False,
       console := console w @ [(''Error searching movies:'', err)]\<rparr>"
  by (simp add: search_defs)

lemma settle_results:
  "search_results r = Inr ms \<Longrightarrow>
   handleSearch_settle r w = w\<lparr>movies := ms, loading := False, awaiting := awaiting w - 1\<rparr>"
  by (simp add: search_defs)

lemma settle_throws:
  "search_results r = Inl err \<Longrightarrow>
   handleSearch_settle r w =
     w\<lparr>movies := [], loading := False, awaiting := awaiting w - 1,
       console := console w @ [(''Error searching movies:'', err)]\<rparr>"
  by (simp add: search_defs)

lemma settle_not_loading: "\<not> loading (handleSearch_settle r w)"
  by (cases "search_results r") (simp_all add: settle_results settle_throws)

lemma submit_clears:
  "query w \<noteq> [] \<Longrightarrow> movies (handleSearch_submit apiKey w) = []"
  by (cases "encodeURIComponent (query w)") (simp_all add: submit_request submit_throws)

lemma step_never_both: "never_both w \<Longrightarrow> never_both (search_step apiKey w e)"
proof (cases e)
  case (Change q)
  assume "never_both w"
  with Change show ?thesis by (simp add: never_both_def setQuery_def)
next
  case Submit
  assume inv: "never_both w"
  show ?thesis
  proof (cases "query w = []")
    case True
    with inv Submit show ?thesis by (simp add: submit_empty)
  next
    case False
    with Submit show ?thesis by (simp add: never_both_def submit_clears)
  qed
next
  case (Settle r)
  assume "never_both w"
  with Settle show ?thesis by (simp add: never_both_def settle_not_loading)
qed

lemma run_never_both: "never_both (search_run apiKey evs)"
proof (induction evs rule: rev_induct)
  case Nil
  show ?case by (simp add: search_run_def never_both_def Home_initial_def)
next
  case (snoc e evs)
  then show ?case by (simp add: search_run_def step_never_both)
qed

lemma typed_matrix_query: "query typed_matrix = [0x4D, 0x61, 0x74, 0x72, 0x69, 0x78]"
  by (simp add: typed_matrix_def setQuery_def utf16_of_ascii_def Home_initial_def)

lemma typed_matrix_encoded: "encodeURIComponent (query typed_matrix) = Inr ''Matrix''"
  by (simp add: typed_matrix_query enc_eval)

lemma typed_matrix_well_formed: "well_formed (query typed_matrix)"
  by (simp add: typed_matrix_query well_formed_def is_lead_surrogate_def is_trail_surrogate_def)

lemma search_results_throws:
  "r = Inl err \<or> (\<exists>res. r = Inr res \<and> json res = Inl err) \<Longrightarrow> search_results r = Inl err"
  by (auto simp: search_results_def)

lemma handleSearch_request:
  "query w \<noteq> [] \<Longrightarrow> encodeURIComponent (query w) = Inr q \<Longrightarrow>
   handleSearch apiKey r w = handleSearch_settle r (handleSearch_submit apiKey w)"
  by (simp add: handleSearch_def)

lemma matrix_shown_page:
  "matrix_shown = typed_matrix\<lparr>movies := [the_matrix, matrix_reloaded], loading := False,
     requests := [''https://api.themoviedb.org/3/search/movie?api_key=KEY&query=Matrix'']\<rparr>"
proof -
  have q: "query typed_matrix \<noteq> []" by (simp add: typed_matrix_query)
  have r: "search_results (Inr matrix_response) = Inr [the_matrix, matrix_reloaded]"
    by (simp add: search_results_def matrix_response_def)
  have "matrix_shown = typed_matrix\<lparr>movies := [the_matrix, matrix_reloaded], loading := False,
      requests := requests typed_matrix @ [search_url (Some ''KEY'') ''Matrix''],
      awaiting := awaiting typed_matrix\<rparr>"
    unfolding matrix_shown_def
    by (simp add: handleSearch_request [OF q typed_matrix_encoded] settle_results [OF r]
        submit_request [OF q typed_matrix_encoded])
  then show ?thesis
    by (simp add: search_url_def key_text_def typed_matrix_def setQuery_def Home_initial_def)
qed

lemma matrix_shown_one_pending_page:
  "matrix_shown_one_pending =
     typed_matrix\<lparr>movies := [the_matrix, matrix_reloaded], loading := False,
       requests := [''https://api.themoviedb.org/3/search/movie?api_key=KEY&query=Matrix'',
                    ''https://api.themoviedb.org/3/search/movie?api_key=KEY&query=Matrix''],
       awaiting := 1\<rparr>"
proof -
  have q: "query typed_matrix \<noteq> []" by (simp add: typed_matrix_query)
  have r: "search_results (Inr matrix_response) = Inr [the_matrix, matrix_reloaded]"
    by (simp add: search_results_def matrix_response_def)
  define w1 where "w1 = handleSearch_submit (Some ''KEY'') typed_matrix"
  have w1: "w1 = typed_matrix\<lparr>movies := [], loading := True,
      requests := requests typed_matrix @ [search_url (Some ''KEY'') ''Matrix''],
      awaiting := Suc (awaiting typed_matrix)\<rparr>"
    unfolding w1_def by (rule submit_request [OF q typed_matrix_encoded])
  have q1: "query w1 \<noteq> []" and e1: "encodeURIComponent (query w1) = Inr ''Matrix''"
    using q typed_matrix_encoded by (simp_all add: w1)
  define w2 where "w2 = handleSearch_submit (Some ''KEY'') w1"
  have w2: "w2 = w1\<lparr>movies := [], loading := True,
      requests := requests w1 @ [search_url (Some ''KEY'') ''Matrix''],
      awaiting := Suc (awaiting w1)\<rparr>"
    unfolding w2_def by (rule submit_request [OF q1 e1])
  have "matrix_shown_one_pending =
      (if awaiting w2 = 0 then w2 else handleSearch_settle (Inr matrix_response) w2)"
    by (simp add: matrix_shown_one_pending_def search_run_def w2_def w1_def typed_matrix_def)
  also have "\<dots> = handleSearch_settle (Inr matrix_response) w2"
    by (simp add: w2)
  also have "\<dots> = w2\<lparr>movies := [the_matrix, matrix_reloaded], loading := False,
      awaiting := awaiting w2 - 1\<rparr>"
    by (rule settle_results [OF r])
  finally show ?thesis
    by (simp add: w2 w1 search_url_def key_text_def typed_matrix_def setQuery_def Home_initial_def)
qed

section \<open>Properties of the detail screen\<close>

lemmas detail_defs =
  fetchMovieDetail_def fetchMovieDetail_start_def fetchMovieDetail_settle_def
  setMovie_def setCredits_def setDetailLoading_def setError_def detail_console_error_def

lemma start_page:
  "fetchMovieDetail_start apiKey i w =
     w\<lparr>detail_loading := True, error := None,
       detail_requests := detail_requests w @ [movie_url apiKey i, credits_url apiKey i],
       detail_awaiting := Suc (detail_awaiting w)\<rparr>"
  by (simp add: detail_defs)

lemma useEffect_id:
  "i \<noteq> [] \<Longrightarrow> deps w \<noteq> Some (Some i) \<Longrightarrow>
   useEffect apiKey (Some i) w = fetchMovieDetail_start apiKey i (w\<lparr>deps := Some (Some i)\<rparr>)"
  by (simp add: useEffect_def)


lemma useEffect_page:
  "i \<noteq> [] \<Longrightarrow> deps w \<noteq> Some (Some i) \<Longrightarrow>
   useEffect apiKey (Some i) w =
     w\<lparr>detail_loading := True, error := None,
       detail_requests := detail_requests w @ [movie_url apiKey i, credits_url apiKey i],
       detail_awaiting := Suc (detail_awaiting w), deps := Some (Some i)\<rparr>"
  by (simp add: useEffect_id start_page)

lemma settle_stored:
  "fetchMovieDetail_try both = Inr (m, c) \<Longrightarrow>
   fetchMovieDetail_settle both w =
     w\<lparr>movie := m, credits := c, detail_loading := False,
       detail_awaiting := detail_awaiting w - 1\<rparr>"
  by (simp add: detail_defs)

lemma settle_failed:
  "fetchMovieDetail_try both = Inl err \<Longrightarrow>
   fetchMovieDetail_settle both w =
     w\<lparr>detail_loading := False, error := Some (error_message err),
       detail_awaiting := detail_awaiting w - 1,
       detail_console := detail_console w @ [(''Error fetching movie details:'', err)]\<rparr>"
  by (simp add: detail_defs)

lemma try_status:
  "\<not> ok movieRes \<or> \<not> ok creditsRes \<Longrightarrow>
   fetchMovieDetail_try (Inr (movieRes, creditsRes)) =
     Inl (Error (if \<not> ok movieRes then ''Failed to fetch movie details.''
                 else ''Failed to fetch credits.''))"
  by (auto simp: fetchMovieDetail_try_def)

lemma try_parsed:
  "ok movieRes \<Longrightarrow> ok creditsRes \<Longrightarrow> json movieRes = Inr m \<Longrightarrow> json creditsRes = Inr c \<Longrightarrow>
   fetchMovieDetail_try (Inr (movieRes, creditsRes)) = Inr (m, c)"
  by (simp add: fetchMovieDetail_try_def)

lemma try_found:
  "fetchMovieDetail_try (Inr (movie_found m, credits_found c)) = Inr (Some m, Some c)"
  by (simp add: try_parsed ok_def movie_found_def credits_found_def)

lemma try_credits_not_found:
  "fetchMovieDetail_try (Inr (movie_found m, credits_not_found)) =
     Inl (Error ''Failed to fetch credits.'')"
  by (simp add: try_status ok_def movie_found_def credits_not_found_def)

lemma render_ready:
  "\<not> detail_loading w \<Longrightarrow> \<not> error_set w \<Longrightarrow> movie w = Some m \<Longrightarrow>
   MovieDetailPage w = Ready (detail_view m (credits w))"
  by (simp add: MovieDetailPage_def render_movie_def error_set_def split: option.splits)

lemma render_ready_iff:
  "MovieDetailPage w = Ready v \<longleftrightarrow>
     \<not> detail_loading w \<and> \<not> error_set w \<and> (\<exists>m. movie w = Some m \<and> v = detail_view m (credits w))"
  by (auto simp: MovieDetailPage_def render_movie_def error_set_def split: option.splits)

lemma mounted_603:
  "useEffect (Some ''KEY'') (Some ''603'') MovieDetailPage_initial =
     MovieDetailPage_initial\<lparr>
       detail_requests := [movie_url (Some ''KEY'') ''603'', credits_url (Some ''KEY'') ''603''],
       detail_awaiting := 1, deps := Some (Some ''603'')\<rparr>"
  by (simp add: useEffect_page MovieDetailPage_initial_def)

lemma ready_603_page:
  "ready_603 = MovieDetailPage_initial\<lparr>movie := Some movie_603, credits := Some credits_603,
     detail_loading := False,
     detail_requests := [movie_url (Some ''KEY'') ''603'', credits_url (Some ''KEY'') ''603''],
     deps := Some (Some ''603'')\<rparr>"
  unfolding ready_603_def mounted_603
  by (simp add: settle_stored [OF try_found] MovieDetailPage_initial_def)

lemma stale_error_page_page:
  "stale_error_page = ready_603\<lparr>error := Some ''Failed to fetch credits.'',
     detail_requests := detail_requests ready_603 @
       [movie_url (Some ''KEY'') ''604'', credits_url (Some ''KEY'') ''604''],
     detail_console := [(''Error fetching movie details:'', Error ''Failed to fetch credits.'')],
     deps := Some (Some ''604'')\<rparr>"
proof -
  have "useEffect (Some ''KEY'') (Some ''604'') ready_603 =
      ready_603\<lparr>detail_loading := True, error := None,
        detail_requests := detail_requests ready_603 @
          [movie_url (Some ''KEY'') ''604'', credits_url (Some ''KEY'') ''604''],
        detail_awaiting := Suc (detail_awaiting ready_603), deps := Some (Some ''604'')\<rparr>"
    by (rule useEffect_page) (simp_all add: ready_603_page)
  then show ?thesis
    unfolding stale_error_page_def
    by (simp add: settle_failed [OF try_credits_not_found] error_message_def ready_603_page
        MovieDetailPage_initial_def)
qed

lemma blank_page_page:
  "blank_page = MovieDetailPage_initial\<lparr>detail_loading := False, error := Some [],
     detail_requests := [movie_url (Some ''KEY'') ''603'', credits_url (Some ''KEY'') ''603''],
     detail_console := [(''Error fetching movie details:'', Error [])],
     deps := Some (Some ''603'')\<rparr>"
proof -
  have "fetchMovieDetail_try (Inl (Error [])) = Inl (Error [])"
    by (simp add: fetchMovieDetail_try_def)
  then show ?thesis
    unfolding blank_page_def mounted_603
    by (simp add: settle_failed error_message_def MovieDetailPage_initial_def)
qed

lemma unrated_603_page:
  "unrated_603 = stale_error_page\<lparr>movie := Some movie_603_unrated, credits := Some \<lparr>cast = []\<rparr>,
     error := None,
     detail_requests :=
       [movie_url (Some ''KEY'') ''603'', credits_url (Some ''KEY'') ''603'',
        movie_url (Some ''KEY'') ''604'', credits_url (Some ''KEY'') ''604'',
        movie_url (Some ''KEY'') ''603'', credits_url (Some ''KEY'') ''603''],
     deps := Some (Some ''603'')\<rparr>"
proof -
  have "useEffect (Some ''KEY'') (Some ''603'') stale_error_page =
      stale_error_page\<lparr>detail_loading := True, error := None,
        detail_requests := detail_requests stale_error_page @
          [movie_url (Some ''KEY'') ''603'', credits_url (Some ''KEY'') ''603''],
        detail_awaiting := Suc (detail_awaiting stale_error_page), deps := Some (Some ''603'')\<rparr>"
    by (rule useEffect_page) (simp_all add: stale_error_page_page)
  then show ?thesis
    unfolding unrated_603_def
    by (simp add: settle_stored [OF try_found] stale_error_page_page ready_603_page
        MovieDetailPage_initial_def)
qed




lemma endless_603_page:
  "endless_603 = MovieDetailPage_initial\<lparr>movie := Some movie_603_endless,
     credits := Some credits_603, detail_loading := False,
     detail_requests := [movie_url (Some ''KEY'') ''603'', credits_url (Some ''KEY'') ''603''],
     deps := Some (Some ''603'')\<rparr>"
  unfolding endless_603_def mounted_603
  by (simp add: settle_stored [OF try_found] MovieDetailPage_initial_def)

section \<open>The claims about the search screen\<close>

text \<open>
  Claim C8. Submitting the search form while the query text is empty issues no request
  and leaves the whole search screen as it was: the query text, the result list, the
  loading flag, the requests issued and the console.
\<close>

theorem empty_query_submit_is_noop:
  "query w = [] \<Longrightarrow>
     handleSearch_submit apiKey w = w \<and> handleSearch apiKey r w = w \<and>
     search_step apiKey w Submit = w"
  by (simp add: handleSearch_def submit_empty)

text \<open>The claim at the freshly mounted screen, whose query text is empty.\<close>

theorem empty_query_submit_is_noop_witness:
  "query Home_initial = [] \<and>
   handleSearch (Some ''KEY'') (Inr matrix_response) Home_initial = Home_initial \<and>
   requests (handleSearch_submit (Some ''KEY'') Home_initial) = []"
proof -
  have h: "query Home_initial = []" by (simp add: Home_initial_def)
  from empty_query_submit_is_noop [OF h, of "Some ''KEY''" "Inr matrix_response"]
  show ?thesis using h by (simp add: Home_initial_def)
qed

text \<open>
  Claim C3, as stated, at a query that is not empty but consists of one unpaired
  surrogate: \<open>encodeURIComponent\<close> throws inside the \<open>try\<close> block, no request is issued, and
  the submission ends with an empty result list.
\<close>

theorem lone_surrogate_query_counterexample:
  "query typed_lone_surrogate \<noteq> [] \<and>
   requests (handleSearch_submit (Some ''KEY'') typed_lone_surrogate) = [] \<and>
   requests (handleSearch (Some ''KEY'') (Inr matrix_response) typed_lone_surrogate) = [] \<and>
   movies (handleSearch (Some ''KEY'') (Inr matrix_response) typed_lone_surrogate) = []"
  by (simp add: typed_lone_surrogate_def handleSearch_def search_defs Home_initial_def
      encodeURIComponent_def uri_unreserved_def is_lead_surrogate_def is_trail_surrogate_def)

text \<open>
  Claim C3, amended. For every query that is not empty and has no unpaired surrogate,
  submitting the search form issues exactly one request, to the search endpoint, with
  the query encoded by \<open>encodeURIComponent\<close> (the encoded text consists of unreserved
  characters and percent escapes only). When the request is answered and the body
  parses to an object, the result list becomes the body's \<open>results\<close> array, or the empty
  list when that field is absent, and loading is cleared.
\<close>

theorem well_formed_query_search_succeeds:
  assumes "query w \<noteq> []" and "well_formed (query w)" and "json res = Inr (Body rs)"
  shows "\<exists>q. encodeURIComponent (query w) = Inr q \<and> (\<forall>c\<in>set q. uri_safe_char c) \<and>
           requests (handleSearch_submit apiKey w) = requests w @ [search_url apiKey q] \<and>
           requests (handleSearch apiKey (Inr res) w) = requests w @ [search_url apiKey q] \<and>
           movies (handleSearch apiKey (Inr res) w) = (case rs of None \<Rightarrow> [] | Some ms \<Rightarrow> ms) \<and>
           \<not> loading (handleSearch apiKey (Inr res) w)"
proof -
  from assms(2) obtain q where q: "encodeURIComponent (query w) = Inr q"
    using encodeURIComponent_well_formed by blast
  have r: "search_results (Inr res) = Inr (case rs of None \<Rightarrow> [] | Some ms \<Rightarrow> ms)"
    using assms(3) by (cases rs) (simp_all add: search_results_def)
  have run: "handleSearch apiKey (Inr res) w =
               handleSearch_settle (Inr res) (handleSearch_submit apiKey w)"
    using assms(1) q by (simp add: handleSearch_def)
  have "requests (handleSearch_submit apiKey w) = requests w @ [search_url apiKey q]"
    using assms(1) q by (simp add: submit_request)
  moreover have "requests (handleSearch apiKey (Inr res) w) = requests w @ [search_url apiKey q]"
    using assms(1) q r by (simp add: run settle_results submit_request)
  moreover have "movies (handleSearch apiKey (Inr res) w) = (case rs of None \<Rightarrow> [] | Some ms \<Rightarrow> ms)"
    using r by (simp add: run settle_results)
  moreover have "\<not> loading (handleSearch apiKey (Inr res) w)"
    by (simp add: run settle_not_loading)
  ultimately show ?thesis
    using q encodeURIComponent_safe [OF q] by blast
qed

text \<open>The amended claim at the search for \<open>Matrix\<close> that the provider answers with two
  results.\<close>

theorem well_formed_query_search_succeeds_witness:
  "query typed_matrix \<noteq> [] \<and> well_formed (query typed_matrix) \<and>
   json matrix_response = Inr (Body (Some [the_matrix, matrix_reloaded])) \<and>
   requests (handleSearch (Some ''KEY'') (Inr matrix_response) typed_matrix) =
     [''https://api.themoviedb.org/3/search/movie?api_key=KEY&query=Matrix''] \<and>
   movies (handleSearch (Some ''KEY'') (Inr matrix_response) typed_matrix) =
     [the_matrix, matrix_reloaded] \<and>
   \<not> loading (handleSearch (Some ''KEY'') (Inr matrix_response) typed_matrix)"
proof -
  have h1: "query typed_matrix \<noteq> []" by (simp add: typed_matrix_query)
  have h3: "json matrix_response = Inr (Body (Some [the_matrix, matrix_reloaded]))"
    by (simp add: matrix_response_def)
  from well_formed_query_search_succeeds [OF h1 typed_matrix_well_formed h3, of "Some ''KEY''"]
  obtain q where q: "encodeURIComponent (query typed_matrix) = Inr q"
    and rest: "requests (handleSearch (Some ''KEY'') (Inr matrix_response) typed_matrix) =
                 requests typed_matrix @ [search_url (Some ''KEY'') q]"
      "movies (handleSearch (Some ''KEY'') (Inr matrix_response) typed_matrix) =
         [the_matrix, matrix_reloaded]"
      "\<not> loading (handleSearch (Some ''KEY'') (Inr matrix_response) typed_matrix)"
    by auto
  from q have "q = ''Matrix''" by (simp add: typed_matrix_encoded)
  with rest h1 h3 typed_matrix_well_formed show ?thesis
    by (simp add: search_url_def key_text_def typed_matrix_def setQuery_def Home_initial_def)
qed

text \<open>
  Claim C7. For every search submission whose request fails, because \<open>fetch\<close> rejects or
  because parsing the body throws, the failure is logged once, the result list is set to
  the empty list whatever it held when the failure arrived (another submission may have
  filled it meanwhile), and loading is cleared. No request is issued by the failure path
  (nothing is retried), so a submission that fails has issued its one request and no
  other, and no handler call of it stays suspended. The screen has no error text: it is
  the screen of a successful search without results.
\<close>

theorem failed_search_ends_empty:
  assumes "r = Inl err \<or> (\<exists>res. r = Inr res \<and> json res = Inl err)"
  shows "movies (handleSearch_settle r w) = [] \<and>
         console (handleSearch_settle r w) = console w @ [(''Error searching movies:'', err)] \<and>
         \<not> loading (handleSearch_settle r w) \<and>
         requests (handleSearch_settle r w) = requests w \<and>
         awaiting (handleSearch_settle r w) = awaiting w - 1 \<and>
         query (handleSearch_settle r w) = query w \<and>
         Home (handleSearch_settle r w) = Home (handleSearch_settle (Inr empty_response) w) \<and>
         (query w \<noteq> [] \<and> encodeURIComponent (query w) = Inr q \<longrightarrow>
            movies (handleSearch apiKey r w) = [] \<and>
            console (handleSearch apiKey r w) =
              console w @ [(''Error searching movies:'', err)] \<and>
            \<not> loading (handleSearch apiKey r w) \<and>
            requests (handleSearch apiKey r w) = requests w @ [search_url apiKey q] \<and>
            awaiting (handleSearch apiKey r w) = awaiting w)"
proof -
  have bad: "search_results r = Inl err"
    using assms by (rule search_results_throws)
  have good: "search_results (Inr empty_response) = Inr []"
    by (simp add: search_results_def empty_response_def)
  note failed = settle_throws [OF bad]
  note empty = settle_results [OF good]
  have piece: "movies (handleSearch_settle r w) = [] \<and>
         console (handleSearch_settle r w) = console w @ [(''Error searching movies:'', err)] \<and>
         \<not> loading (handleSearch_settle r w) \<and>
         requests (handleSearch_settle r w) = requests w \<and>
         awaiting (handleSearch_settle r w) = awaiting w - 1 \<and>
         query (handleSearch_settle r w) = query w"
    by (simp add: failed)
  have view: "Home (handleSearch_settle r w) = Home (handleSearch_settle (Inr empty_response) w)"
    by (simp add: failed empty Home_def)
  have run: "movies (handleSearch apiKey r w) = [] \<and>
      console (handleSearch apiKey r w) = console w @ [(''Error searching movies:'', err)] \<and>
      \<not> loading (handleSearch apiKey r w) \<and>
      requests (handleSearch apiKey r w) = requests w @ [search_url apiKey q] \<and>
      awaiting (handleSearch apiKey r w) = awaiting w"
    if "query w \<noteq> [] \<and> encodeURIComponent (query w) = Inr q"
  proof -
    from that have q: "query w \<noteq> []" and e: "encodeURIComponent (query w) = Inr q"
      by simp_all
    show ?thesis
      by (simp add: handleSearch_request [OF q e] failed submit_request [OF q e])
  qed
  from piece view run show ?thesis by blast
qed

text \<open>The claim where the failure arrives while the screen shows the two results of an
  overlapping search for \<open>Matrix\<close>, and at a single search for \<open>Matrix\<close> on a fresh screen;
  the answer is that of a gateway, with a body that is not JSON.\<close>

theorem failed_search_ends_empty_witness:
  "json gateway_error_response = Inl (Error ''Unexpected token < in JSON at position 0'') \<and>
   movies matrix_shown_one_pending = [the_matrix, matrix_reloaded] \<and>
   awaiting matrix_shown_one_pending = 1 \<and>
   movies (handleSearch_settle (Inr gateway_error_response) matrix_shown_one_pending) = [] \<and>
   console (handleSearch_settle (Inr gateway_error_response) matrix_shown_one_pending) =
     [(''Error searching movies:'', Error ''Unexpected token < in JSON at position 0'')] \<and>
   \<not> loading (handleSearch_settle (Inr gateway_error_response) matrix_shown_one_pending) \<and>
   requests (handleSearch_settle (Inr gateway_error_response) matrix_shown_one_pending) =
     [''https://api.themoviedb.org/3/search/movie?api_key=KEY&query=Matrix'',
      ''https://api.themoviedb.org/3/search/movie?api_key=KEY&query=Matrix''] \<and>
   awaiting (handleSearch_settle (Inr gateway_error_response) matrix_shown_one_pending) = 0 \<and>
   Home (handleSearch_settle (Inr gateway_error_response) matrix_shown_one_pending) =
     Home (handleSearch_settle (Inr empty_response) matrix_shown_one_pending) \<and>
   query typed_matrix \<noteq> [] \<and> encodeURIComponent (query typed_matrix) = Inr ''Matrix'' \<and>
   movies (handleSearch (Some ''KEY'') (Inr gateway_error_response) typed_matrix) = [] \<and>
   requests (handleSearch (Some ''KEY'') (Inr gateway_error_response) typed_matrix) =
     [''https://api.themoviedb.org/3/search/movie?api_key=KEY&query=Matrix''] \<and>
   \<not> loading (handleSearch (Some ''KEY'') (Inr gateway_error_response) typed_matrix)"
proof -
  have h1: "query typed_matrix \<noteq> []" by (simp add: typed_matrix_query)
  have j: "json gateway_error_response = Inl (Error ''Unexpected token < in JSON at position 0'')"
    by (simp add: gateway_error_response_def)
  then have h3: "Inr gateway_error_response =
        Inl (Error ''Unexpected token < in JSON at position 0'') \<or>
      (\<exists>res. Inr gateway_error_response = Inr res \<and>
         json res = Inl (Error ''Unexpected token < in JSON at position 0''))"
    by simp
  have p: "movies matrix_shown_one_pending = [the_matrix, matrix_reloaded] \<and>
           awaiting matrix_shown_one_pending = 1 \<and> console matrix_shown_one_pending = [] \<and>
           requests matrix_shown_one_pending =
             [''https://api.themoviedb.org/3/search/movie?api_key=KEY&query=Matrix'',
              ''https://api.themoviedb.org/3/search/movie?api_key=KEY&query=Matrix'']"
    by (simp add: matrix_shown_one_pending_page typed_matrix_def setQuery_def Home_initial_def)
  have c: "console typed_matrix = [] \<and> requests typed_matrix = [] \<and> awaiting typed_matrix = 0"
    by (simp add: typed_matrix_def setQuery_def Home_initial_def)
  have u: "search_url (Some ''KEY'') ''Matrix'' =
             ''https://api.themoviedb.org/3/search/movie?api_key=KEY&query=Matrix''"
    by (simp add: search_url_def key_text_def)
  note overlapping = failed_search_ends_empty
    [OF h3, where w = matrix_shown_one_pending and q = "''Matrix''" and apiKey = "Some ''KEY''"]
  note single = failed_search_ends_empty
    [OF h3, where w = typed_matrix and q = "''Matrix''" and apiKey = "Some ''KEY''"]
  show ?thesis
    using overlapping single h1 j p c u typed_matrix_encoded by simp
qed

text \<open>
  Claim C5. At every point a user can observe, after any sequence of edits, submissions
  and settled requests in any order, the search screen never has a non-empty result list
  while loading is set. Every submission that goes past the empty-query test leaves the
  result list empty; whenever a step installs a new non-empty result list, loading is
  cleared by that same step; and the result grid is never rendered together with the
  spinner.
\<close>

theorem results_never_shown_while_loading:
  "\<not> (loading (search_run apiKey evs) \<and> movies (search_run apiKey evs) \<noteq> []) \<and>
   (query w \<noteq> [] \<longrightarrow> movies (handleSearch_submit apiKey w) = []) \<and>
   (movies (search_step apiKey w' e) \<noteq> [] \<and> movies (search_step apiKey w' e) \<noteq> movies w'
      \<longrightarrow> \<not> loading (search_step apiKey w' e)) \<and>
   (results_grid (Home v) \<noteq> None \<longrightarrow> \<not> spinner (Home v))"
proof -
  have "\<not> (loading (search_run apiKey evs) \<and> movies (search_run apiKey evs) \<noteq> [])"
    using run_never_both [of apiKey evs] by (simp add: never_both_def)
  moreover have "query w \<noteq> [] \<longrightarrow> movies (handleSearch_submit apiKey w) = []"
    by (simp add: submit_clears)
  moreover have "movies (search_step apiKey w' e) \<noteq> [] \<and>
      movies (search_step apiKey w' e) \<noteq> movies w' \<longrightarrow> \<not> loading (search_step apiKey w' e)"
  proof (cases e)
    case (Change q)
    then show ?thesis by (simp add: setQuery_def)
  next
    case Submit
    then show ?thesis
      by (cases "query w' = []") (simp_all add: submit_empty submit_clears)
  next
    case (Settle r)
    then show ?thesis by (simp add: settle_not_loading)
  qed
  moreover have "results_grid (Home v) \<noteq> None \<longrightarrow> \<not> spinner (Home v)"
    by (simp add: Home_def)
  ultimately show ?thesis by blast
qed

text \<open>The claim at overlapping searches for \<open>Matrix\<close>, at a new submission over the
  displayed results, and at the step that delivers the results.\<close>

theorem results_never_shown_while_loading_witness:
  "\<not> (loading (search_run (Some ''KEY'')
         [Change (utf16_of_ascii ''Matrix''), Submit, Submit, Settle (Inr matrix_response),
          Settle (Inr gateway_error_response), Submit]) \<and>
       movies (search_run (Some ''KEY'')
         [Change (utf16_of_ascii ''Matrix''), Submit, Submit, Settle (Inr matrix_response),
          Settle (Inr gateway_error_response), Submit]) \<noteq> []) \<and>
   query matrix_shown \<noteq> [] \<and> movies matrix_shown \<noteq> [] \<and>
   movies (handleSearch_submit (Some ''KEY'') matrix_shown) = [] \<and>
   movies (search_step (Some ''KEY'') (handleSearch_submit (Some ''KEY'') typed_matrix)
             (Settle (Inr matrix_response))) = [the_matrix, matrix_reloaded] \<and>
   \<not> loading (search_step (Some ''KEY'') (handleSearch_submit (Some ''KEY'') typed_matrix)
               (Settle (Inr matrix_response))) \<and>
   results_grid (Home matrix_shown) \<noteq> None \<and> \<not> spinner (Home matrix_shown)"
proof -
  have q: "query typed_matrix \<noteq> []" by (simp add: typed_matrix_query)
  have r: "search_results (Inr matrix_response) = Inr [the_matrix, matrix_reloaded]"
    by (simp add: search_results_def matrix_response_def)
  have s: "movies (search_step (Some ''KEY'') (handleSearch_submit (Some ''KEY'') typed_matrix)
             (Settle (Inr matrix_response))) = [the_matrix, matrix_reloaded]"
    by (simp add: submit_request [OF q typed_matrix_encoded] settle_results [OF r])
  have m: "query matrix_shown \<noteq> [] \<and> movies matrix_shown \<noteq> [] \<and>
           results_grid (Home matrix_shown) \<noteq> None"
    by (simp add: matrix_shown_page Home_def typed_matrix_query)
  have b: "movies (handleSearch_submit (Some ''KEY'') typed_matrix) = []"
    by (simp add: submit_clears [OF q])
  from results_never_shown_while_loading
    [of "Some ''KEY''"
        "[Change (utf16_of_ascii ''Matrix''), Submit, Submit, Settle (Inr matrix_response),
          Settle (Inr gateway_error_response), Submit]"
        matrix_shown "handleSearch_submit (Some ''KEY'') typed_matrix"
        "Settle (Inr matrix_response)" matrix_shown]
  show ?thesis using s m b by simp
qed

section \<open>The claims about the detail screen\<close>

text \<open>
  Claim C1. For every detail fetch whose two requests are answered and in which the
  movie answer or the credits answer has a status outside 200 to 299, \<open>error\<close> becomes
  \<open>Failed to fetch movie details.\<close> when the movie answer failed, else
  \<open>Failed to fetch credits.\<close>; the movie and the credits keep the values they had, and
  loading is cleared. In particular, on a fresh mount whose movie answer is successful
  and whose credits answer has status 404, the screen shows \<open>Failed to fetch credits.\<close>
  and the movie and the credits are both unset.
\<close>

theorem failed_status_sets_fixed_message:
  "(\<not> ok movieRes \<or> \<not> ok creditsRes \<longrightarrow>
      error (fetchMovieDetail apiKey i (Inr (movieRes, creditsRes)) w) =
        Some (if \<not> ok movieRes then ''Failed to fetch movie details.''
              else ''Failed to fetch credits.'') \<and>
      movie (fetchMovieDetail apiKey i (Inr (movieRes, creditsRes)) w) = movie w \<and>
      credits (fetchMovieDetail apiKey i (Inr (movieRes, creditsRes)) w) = credits w \<and>
      \<not> detail_loading (fetchMovieDetail apiKey i (Inr (movieRes, creditsRes)) w)) \<and>
   (i \<noteq> [] \<and> ok movieRes \<and> status creditsRes = 404 \<longrightarrow>
      MovieDetailPage (fetchMovieDetail_settle (Inr (movieRes, creditsRes))
                         (useEffect apiKey (Some i) MovieDetailPage_initial)) =
        Error_screen ''Failed to fetch credits.'' \<and>
      movie (fetchMovieDetail_settle (Inr (movieRes, creditsRes))
               (useEffect apiKey (Some i) MovieDetailPage_initial)) = None \<and>
      credits (fetchMovieDetail_settle (Inr (movieRes, creditsRes))
                 (useEffect apiKey (Some i) MovieDetailPage_initial)) = None)"
proof (intro conjI impI)
  assume bad: "\<not> ok movieRes \<or> \<not> ok creditsRes"
  note page = settle_failed [OF try_status [OF bad]]
  show "error (fetchMovieDetail apiKey i (Inr (movieRes, creditsRes)) w) =
        Some (if \<not> ok movieRes then ''Failed to fetch movie details.''
              else ''Failed to fetch credits.'')"
    by (simp add: fetchMovieDetail_def page error_message_def)
  show "movie (fetchMovieDetail apiKey i (Inr (movieRes, creditsRes)) w) = movie w"
    by (simp add: fetchMovieDetail_def page start_page)
  show "credits (fetchMovieDetail apiKey i (Inr (movieRes, creditsRes)) w) = credits w"
    by (simp add: fetchMovieDetail_def page start_page)
  show "\<not> detail_loading (fetchMovieDetail apiKey i (Inr (movieRes, creditsRes)) w)"
    by (simp add: fetchMovieDetail_def page)
next
  assume h: "i \<noteq> [] \<and> ok movieRes \<and> status creditsRes = 404"
  then have bad: "\<not> ok movieRes \<or> \<not> ok creditsRes"
    by (simp add: ok_def)
  have page: "fetchMovieDetail_settle (Inr (movieRes, creditsRes))
                (useEffect apiKey (Some i) MovieDetailPage_initial) =
              (fetchMovieDetail_start apiKey i (MovieDetailPage_initial\<lparr>deps := Some (Some i)\<rparr>))
                \<lparr>detail_loading := False, error := Some ''Failed to fetch credits.'',
                  detail_awaiting := 0,
                  detail_console := [(''Error fetching movie details:'',
                                      Error ''Failed to fetch credits.'')]\<rparr>"
    using h by (simp add: useEffect_id settle_failed [OF try_status [OF bad]] error_message_def
        start_page MovieDetailPage_initial_def)
  show "MovieDetailPage (fetchMovieDetail_settle (Inr (movieRes, creditsRes))
                         (useEffect apiKey (Some i) MovieDetailPage_initial)) =
        Error_screen ''Failed to fetch credits.''"
    by (simp add: page MovieDetailPage_def)
  show "movie (fetchMovieDetail_settle (Inr (movieRes, creditsRes))
               (useEffect apiKey (Some i) MovieDetailPage_initial)) = None"
    unfolding page by (simp add: start_page MovieDetailPage_initial_def)
  show "credits (fetchMovieDetail_settle (Inr (movieRes, creditsRes))
                 (useEffect apiKey (Some i) MovieDetailPage_initial)) = None"
    unfolding page by (simp add: start_page MovieDetailPage_initial_def)
qed

text \<open>The claim at the fetch for identifier 603 on a fresh mount, with the movie found and
  the credits answered by status 404.\<close>

theorem failed_status_sets_fixed_message_witness:
  "\<not> ok credits_not_found \<and> ok (movie_found movie_603) \<and> status credits_not_found = 404 \<and>
   error (fetchMovieDetail (Some ''KEY'') ''603''
            (Inr (movie_found movie_603, credits_not_found)) MovieDetailPage_initial) =
     Some ''Failed to fetch credits.'' \<and>
   MovieDetailPage (fetchMovieDetail_settle (Inr (movie_found movie_603, credits_not_found))
                      (useEffect (Some ''KEY'') (Some ''603'') MovieDetailPage_initial)) =
     Error_screen ''Failed to fetch credits.'' \<and>
   movie (fetchMovieDetail_settle (Inr (movie_found movie_603, credits_not_found))
            (useEffect (Some ''KEY'') (Some ''603'') MovieDetailPage_initial)) = None \<and>
   credits (fetchMovieDetail_settle (Inr (movie_found movie_603, credits_not_found))
              (useEffect (Some ''KEY'') (Some ''603'') MovieDetailPage_initial)) = None"
proof -
  have h: "\<not> ok credits_not_found \<and> ok (movie_found movie_603) \<and> status credits_not_found = 404"
    by (simp add: ok_def credits_not_found_def movie_found_def)
  from failed_status_sets_fixed_message
    [of "movie_found movie_603" credits_not_found "Some ''KEY''" "''603''" MovieDetailPage_initial]
  show ?thesis using h by simp
qed






text \<open>
  Claim C4, as stated, at a screen that is reachable: movie 603 was loaded, then the
  flow ran for identifier 604 and its credits request failed. Loading is cleared and a
  movie is present, which is the stated condition of the Ready state, and an error is
  set, which is the stated condition of the Error state. The screen shows the error, not
  the detail view.
\<close>

theorem stale_movie_with_error_counterexample:
  "\<not> detail_loading stale_error_page \<and> movie stale_error_page = Some movie_603 \<and>
   error stale_error_page = Some ''Failed to fetch credits.'' \<and>
   MovieDetailPage stale_error_page = Error_screen ''Failed to fetch credits.'' \<and>
   MovieDetailPage stale_error_page \<noteq> Ready (detail_view movie_603 (credits stale_error_page))"
  by (simp add: stale_error_page_page ready_603_page MovieDetailPage_def
      MovieDetailPage_initial_def)

text \<open>
  Claim C4, amended. What the detail screen renders is a total function of loading,
  \<open>error\<close>, movie (and credits): while loading, the spinner only; when not loading and an
  error message is set (and not empty), the message with the back action; when not
  loading, with no error and no movie, nothing; when not loading, with no error and a
  movie present, the full detail view. Exactly one of these four conditions holds in any
  state.
\<close>

theorem render_is_first_match_of_four_states:
  "(detail_loading w \<longrightarrow> MovieDetailPage w = Spinner) \<and>
   (\<not> detail_loading w \<and> error w = Some e \<and> e \<noteq> [] \<longrightarrow> MovieDetailPage w = Error_screen e) \<and>
   (\<not> detail_loading w \<and> \<not> error_set w \<and> movie w = None \<longrightarrow> MovieDetailPage w = Blank) \<and>
   (\<not> detail_loading w \<and> \<not> error_set w \<and> movie w = Some m \<longrightarrow>
      MovieDetailPage w = Ready (detail_view m (credits w))) \<and>
   length (filter id
     [detail_loading w,
      \<not> detail_loading w \<and> error_set w,
      \<not> detail_loading w \<and> \<not> error_set w \<and> movie w = None,
      \<not> detail_loading w \<and> \<not> error_set w \<and> movie w \<noteq> None]) = 1"
proof (intro conjI impI)
  show "MovieDetailPage w = Spinner" if "detail_loading w"
    using that by (simp add: MovieDetailPage_def)
  show "MovieDetailPage w = Error_screen e" if "\<not> detail_loading w \<and> error w = Some e \<and> e \<noteq> []"
    using that by (simp add: MovieDetailPage_def)
  show "MovieDetailPage w = Blank" if "\<not> detail_loading w \<and> \<not> error_set w \<and> movie w = None"
    using that
    by (simp add: MovieDetailPage_def render_movie_def error_set_def split: option.splits)
  show "MovieDetailPage w = Ready (detail_view m (credits w))"
    if "\<not> detail_loading w \<and> \<not> error_set w \<and> movie w = Some m"
    using that by (simp add: render_ready)
  show "length (filter id
     [detail_loading w,
      \<not> detail_loading w \<and> error_set w,
      \<not> detail_loading w \<and> \<not> error_set w \<and> movie w = None,
      \<not> detail_loading w \<and> \<not> error_set w \<and> movie w \<noteq> None]) = 1"
    by (cases "detail_loading w"; cases "error_set w"; cases "movie w = None") simp_all
qed

text \<open>The amended claim at a screen of each of the four states.\<close>

theorem render_is_first_match_of_four_states_witness:
  "detail_loading MovieDetailPage_initial \<and> MovieDetailPage MovieDetailPage_initial = Spinner \<and>
   \<not> detail_loading stale_error_page \<and> error stale_error_page = Some ''Failed to fetch credits.'' \<and>
   MovieDetailPage stale_error_page = Error_screen ''Failed to fetch credits.'' \<and>
   \<not> detail_loading blank_page \<and> \<not> error_set blank_page \<and> movie blank_page = None \<and>
   MovieDetailPage blank_page = Blank \<and>
   \<not> detail_loading ready_603 \<and> \<not> error_set ready_603 \<and> movie ready_603 = Some movie_603 \<and>
   MovieDetailPage ready_603 = Ready (detail_view movie_603 (credits ready_603))"
proof -
  have a: "detail_loading MovieDetailPage_initial"
    by (simp add: MovieDetailPage_initial_def)
  have b: "\<not> detail_loading stale_error_page \<and>
           error stale_error_page = Some ''Failed to fetch credits.''"
    by (simp add: stale_error_page_page ready_603_page)
  have c: "\<not> detail_loading blank_page \<and> \<not> error_set blank_page \<and> movie blank_page = None"
    by (simp add: blank_page_page error_set_def MovieDetailPage_initial_def)
  have d: "\<not> detail_loading ready_603 \<and> \<not> error_set ready_603 \<and> movie ready_603 = Some movie_603"
    by (simp add: ready_603_page error_set_def MovieDetailPage_initial_def)
  from render_is_first_match_of_four_states [of MovieDetailPage_initial]
    render_is_first_match_of_four_states [of stale_error_page "''Failed to fetch credits.''"]
    render_is_first_match_of_four_states [of blank_page]
    render_is_first_match_of_four_states [of ready_603 _ movie_603]
  show ?thesis using a b c d by simp
qed

text \<open>
  Claim C9, as stated, at a positive runtime of \<open>10^21\<close>: the template literal prints a
  Number with Number::toString, which from \<open>10^21\<close> on uses the exponent form, so the
  runtime text is \<open>1e+21 minutes\<close> and not the numeral of the runtime followed by
  \<open> minutes\<close>.
\<close>

theorem exponent_form_runtime_counterexample:
  "MovieDetailPage endless_603 = Ready (detail_view movie_603_endless (Some credits_603)) \<and>
   movie endless_603 = Some movie_603_endless \<and>
   md_runtime movie_603_endless = 1000000000000000000000 \<and>
   0 < md_runtime movie_603_endless \<and>
   runtime_text (detail_view movie_603_endless (Some credits_603)) = ''1e+21 minutes'' \<and>
   runtime_text (detail_view movie_603_endless (Some credits_603)) \<noteq>
     ''1000000000000000000000 minutes''"
  by (simp add: endless_603_page MovieDetailPage_def render_movie_def MovieDetailPage_initial_def
      detail_view_def render_runtime_def movie_603_endless_def number_to_string_10_21)

text \<open>
  Claim C9, amended. In the Ready state, a stored movie whose runtime is 0 is shown with
  the runtime text \<open>N/A\<close>, not \<open>0 minutes\<close>; a positive runtime \<open>n\<close> of at most \<open>2^53 - 1\<close>
  (the integers that Number::toString prints exactly and in full) is shown as the decimal
  numeral of \<open>n\<close>, digits only and without a leading zero, followed by \<open> minutes\<close>.
\<close>

theorem zero_runtime_renders_not_available:
  assumes "MovieDetailPage w = Ready v" and "movie w = Some m"
  shows "(md_runtime m = 0 \<longrightarrow> runtime_text v = ''N/A'' \<and> runtime_text v \<noteq> ''0 minutes'') \<and>
         (0 < md_runtime m \<and> md_runtime m \<le> 9007199254740991 \<longrightarrow>
            runtime_text v = number_to_string (md_runtime m) @ '' minutes'' \<and>
            int (decimal_value (number_to_string (md_runtime m))) = md_runtime m \<and>
            set (number_to_string (md_runtime m)) \<subseteq> set ''0123456789'' \<and>
            hd (number_to_string (md_runtime m)) \<noteq> CHR ''0'')"
proof -
  from assms have v: "v = detail_view m (credits w)"
    by (auto simp: render_ready_iff)
  show ?thesis
    using number_to_string_positive [of "md_runtime m"]
    by (simp add: v detail_view_def render_runtime_def)
qed

text \<open>The amended claim at runtime 0 and at runtime 136.\<close>

theorem zero_runtime_renders_not_available_witness:
  "MovieDetailPage unrated_603 = Ready (detail_view movie_603_unrated (Some \<lparr>cast = []\<rparr>)) \<and>
   movie unrated_603 = Some movie_603_unrated \<and> md_runtime movie_603_unrated = 0 \<and>
   runtime_text (detail_view movie_603_unrated (Some \<lparr>cast = []\<rparr>)) = ''N/A'' \<and>
   MovieDetailPage ready_603 = Ready (detail_view movie_603 (Some credits_603)) \<and>
   movie ready_603 = Some movie_603 \<and>
   0 < md_runtime movie_603 \<and> md_runtime movie_603 \<le> 9007199254740991 \<and>
   runtime_text (detail_view movie_603 (Some credits_603)) = ''136 minutes''"
proof -
  have a: "MovieDetailPage unrated_603 = Ready (detail_view movie_603_unrated (Some \<lparr>cast = []\<rparr>))"
    by (simp add: unrated_603_page stale_error_page_page ready_603_page MovieDetailPage_def
        render_movie_def MovieDetailPage_initial_def)
  have b: "movie unrated_603 = Some movie_603_unrated \<and> md_runtime movie_603_unrated = 0"
    by (simp add: unrated_603_page movie_603_unrated_def)
  have c: "MovieDetailPage ready_603 = Ready (detail_view movie_603 (Some credits_603))"
    by (simp add: ready_603_page MovieDetailPage_def render_movie_def MovieDetailPage_initial_def)
  have d: "movie ready_603 = Some movie_603 \<and>
           0 < md_runtime movie_603 \<and> md_runtime movie_603 \<le> 9007199254740991"
    by (simp add: ready_603_page movie_603_def)
  have e: "number_to_string (md_runtime movie_603) = ''136''"
    by (simp add: movie_603_def number_to_string_def print_number_def digits.simps
        digit_char_def char_of_def bit_Suc_0_iff)
  from zero_runtime_renders_not_available [OF a conjunct1 [OF b]]
    zero_runtime_renders_not_available [OF c conjunct1 [OF d]]
  show ?thesis using a b c d e by simp
qed

text \<open>
  Claim C10. In the Ready state the Cast section shows the first ten entries of the
  cast list at most, one card for each in the order of the list, with the entry's
  performer name, its character after \<open>as \<close>, and its profile image when it has one; with
  an empty cast list (or no credits) there is no Cast section; and a rating of exactly 0
  is shown as \<open>N/A\<close>, not as \<open>0/10\<close>, while any other rating is shown out of ten.
\<close>

theorem cast_is_first_ten_and_zero_rating_not_available:
  assumes "MovieDetailPage w = Ready v" and "movie w = Some m"
  shows "(credits w = Some c \<and> cast c \<noteq> [] \<longrightarrow>
            cast_section v =
              Some (map (\<lambda>member.
                      \<lparr>card_img =
                         (case profile_path member of
                            None \<Rightarrow> None
                          | Some p \<Rightarrow>
                              if p = [] then None
                              else Some (''https://image.tmdb.org/t/p/w200'' @ p)),
                       card_name = name member,
                       card_role = ''as '' @ character member\<rparr>)
                    (take 10 (cast c))) \<and>
            (\<exists>cards. cast_section v = Some cards \<and>
               map card_name cards = map name (take 10 (cast c)) \<and>
               length cards = min 10 (length (cast c)))) \<and>
         (credits w = Some c \<and> cast c = [] \<longrightarrow> cast_section v = None) \<and>
         (credits w = None \<longrightarrow> cast_section v = None) \<and>
         (md_vote_average m = 0 \<longrightarrow> rating v = Rating_NA \<and> rating v \<noteq> Out_of_ten 0) \<and>
         (md_vote_average m \<noteq> 0 \<longrightarrow> rating v = Out_of_ten (md_vote_average m))"
proof -
  from assms have v: "v = detail_view m (credits w)"
    by (auto simp: render_ready_iff)
  have card: "cast_card =
      (\<lambda>member.
         \<lparr>card_img =
            (case profile_path member of
               None \<Rightarrow> None
             | Some p \<Rightarrow>
                 if p = [] then None else Some (''https://image.tmdb.org/t/p/w200'' @ p)),
          card_name = name member,
          card_role = ''as '' @ character member\<rparr>)"
    by (rule ext) (simp add: cast_card_def image_url_def split: option.splits)
  have shown: "cast_section v = Some (map cast_card (take 10 (cast c)))"
    if "credits w = Some c \<and> cast c \<noteq> []"
    using that by (simp add: v detail_view_def render_cast_def)
  have hidden: "cast_section v = None" if "credits w = Some c \<and> cast c = [] \<or> credits w = None"
    using that by (auto simp: v detail_view_def render_cast_def)
  have rated: "(md_vote_average m = 0 \<longrightarrow> rating v = Rating_NA \<and> rating v \<noteq> Out_of_ten 0) \<and>
      (md_vote_average m \<noteq> 0 \<longrightarrow> rating v = Out_of_ten (md_vote_average m))"
    by (simp add: v detail_view_def render_rating_def)
  show ?thesis
  proof (intro conjI impI)
    assume h: "credits w = Some c \<and> cast c \<noteq> []"
    show "cast_section v =
              Some (map (\<lambda>member.
                      \<lparr>card_img =
                         (case profile_path member of
                            None \<Rightarrow> None
                          | Some p \<Rightarrow>
                              if p = [] then None
                              else Some (''https://image.tmdb.org/t/p/w200'' @ p)),
                       card_name = name member,
                       card_role = ''as '' @ character member\<rparr>)
                    (take 10 (cast c)))"
      using shown [OF h] by (simp add: card)
    show "\<exists>cards. cast_section v = Some cards \<and>
               map card_name cards = map name (take 10 (cast c)) \<and>
               length cards = min 10 (length (cast c))"
      by (simp add: shown [OF h] cast_card_def)
  next
    assume "credits w = Some c \<and> cast c = []"
    then show "cast_section v = None" by (simp add: hidden)
  next
    assume "credits w = None"
    then show "cast_section v = None" by (simp add: hidden)
  next
    assume "md_vote_average m = 0"
    with rated show "rating v = Rating_NA" and "rating v \<noteq> Out_of_ten 0" by simp_all
  next
    assume "md_vote_average m \<noteq> 0"
    with rated show "rating v = Out_of_ten (md_vote_average m)" by simp
  qed
qed

text \<open>The claim at a cast of twelve with rating 8, and at an empty cast with rating 0.\<close>

theorem cast_is_first_ten_and_zero_rating_not_available_witness:
  "MovieDetailPage ready_603 = Ready (detail_view movie_603 (Some credits_603)) \<and>
   movie ready_603 = Some movie_603 \<and> credits ready_603 = Some credits_603 \<and>
   cast credits_603 \<noteq> [] \<and> length (cast credits_603) = 12 \<and>
   map name (cast credits_603) =
     [''Ann'', ''Bob'', ''Cy'', ''Dee'', ''Eve'', ''Fay'', ''Gus'', ''Hal'', ''Ida'', ''Jo'',
      ''Kim'', ''Lee''] \<and>
   cast_section (detail_view movie_603 (Some credits_603)) =
     Some [\<lparr>card_img = None, card_name = ''Ann'', card_role = ''as Role of Ann''\<rparr>,
           \<lparr>card_img = Some ''https://image.tmdb.org/t/p/w200/Bob.jpg'', card_name = ''Bob'',
             card_role = ''as Role of Bob''\<rparr>,
           \<lparr>card_img = None, card_name = ''Cy'', card_role = ''as Role of Cy''\<rparr>,
           \<lparr>card_img = Some ''https://image.tmdb.org/t/p/w200/Dee.jpg'', card_name = ''Dee'',
             card_role = ''as Role of Dee''\<rparr>,
           \<lparr>card_img = None, card_name = ''Eve'', card_role = ''as Role of Eve''\<rparr>,
           \<lparr>card_img = Some ''https://image.tmdb.org/t/p/w200/Fay.jpg'', card_name = ''Fay'',
             card_role = ''as Role of Fay''\<rparr>,
           \<lparr>card_img = None, card_name = ''Gus'', card_role = ''as Role of Gus''\<rparr>,
           \<lparr>card_img = Some ''https://image.tmdb.org/t/p/w200/Hal.jpg'', card_name = ''Hal'',
             card_role = ''as Role of Hal''\<rparr>,
           \<lparr>card_img = None, card_name = ''Ida'', card_role = ''as Role of Ida''\<rparr>,
           \<lparr>card_img = Some ''https://image.tmdb.org/t/p/w200/Jo.jpg'', card_name = ''Jo'',
             card_role = ''as Role of Jo''\<rparr>] \<and>
   md_vote_average movie_603 \<noteq> 0 \<and>
   rating (detail_view movie_603 (Some credits_603)) = Out_of_ten 8 \<and>
   MovieDetailPage unrated_603 = Ready (detail_view movie_603_unrated (Some \<lparr>cast = []\<rparr>)) \<and>
   movie unrated_603 = Some movie_603_unrated \<and> credits unrated_603 = Some \<lparr>cast = []\<rparr> \<and>
   md_vote_average movie_603_unrated = 0 \<and>
   cast_section (detail_view movie_603_unrated (Some \<lparr>cast = []\<rparr>)) = None \<and>
   rating (detail_view movie_603_unrated (Some \<lparr>cast = []\<rparr>)) = Rating_NA"
proof -
  have a: "MovieDetailPage ready_603 = Ready (detail_view movie_603 (Some credits_603))"
    by (simp add: ready_603_page MovieDetailPage_def render_movie_def MovieDetailPage_initial_def)
  have b: "movie ready_603 = Some movie_603" and b': "credits ready_603 = Some credits_603"
    by (simp_all add: ready_603_page)
  have c: "cast credits_603 \<noteq> [] \<and> length (cast credits_603) = 12 \<and>
           map name (cast credits_603) =
             [''Ann'', ''Bob'', ''Cy'', ''Dee'', ''Eve'', ''Fay'', ''Gus'', ''Hal'', ''Ida'',
              ''Jo'', ''Kim'', ''Lee'']"
    by (simp add: credits_603_def cast_member_def)
  have t: "take 10 (cast credits_603) =
      [cast_member 1 ''Ann'', cast_member 2 ''Bob'', cast_member 3 ''Cy'',
       cast_member 4 ''Dee'', cast_member 5 ''Eve'', cast_member 6 ''Fay'',
       cast_member 7 ''Gus'', cast_member 8 ''Hal'', cast_member 9 ''Ida'',
       cast_member 10 ''Jo'']"
    by (simp add: credits_603_def)
  have r: "md_vote_average movie_603 \<noteq> 0 \<and> md_vote_average movie_603 = 8"
    by (simp add: movie_603_def)
  have d: "MovieDetailPage unrated_603 = Ready (detail_view movie_603_unrated (Some \<lparr>cast = []\<rparr>))"
    by (simp add: unrated_603_page stale_error_page_page ready_603_page MovieDetailPage_def
        render_movie_def MovieDetailPage_initial_def)
  have e: "movie unrated_603 = Some movie_603_unrated"
    and e': "credits unrated_603 = Some \<lparr>cast = []\<rparr>"
    and e'': "md_vote_average movie_603_unrated = 0"
    by (simp_all add: unrated_603_page movie_603_unrated_def)
  note twelve = cast_is_first_ten_and_zero_rating_not_available [OF a b, where c = credits_603]
  note none = cast_is_first_ten_and_zero_rating_not_available
    [OF d e, where c = "\<lparr>cast = []\<rparr>"]
  have cards: "cast_section (detail_view movie_603 (Some credits_603)) =
      Some (map (\<lambda>member.
              \<lparr>card_img =
                 (case profile_path member of
                    None \<Rightarrow> None
                  | Some p \<Rightarrow>
                      if p = [] then None
                      else Some (''https://image.tmdb.org/t/p/w200'' @ p)),
               card_name = name member,
               card_role = ''as '' @ character member\<rparr>)
            (take 10 (cast credits_603)))"
    using twelve b' c by simp
  have rated: "rating (detail_view movie_603 (Some credits_603)) = Out_of_ten 8"
    using twelve r by simp
  have unrated: "cast_section (detail_view movie_603_unrated (Some \<lparr>cast = []\<rparr>)) = None \<and>
      rating (detail_view movie_603_unrated (Some \<lparr>cast = []\<rparr>)) = Rating_NA"
    using none e' e'' by simp
  show ?thesis
    using a b b' c d e e' e'' r rated unrated
    by (simp add: cards t cast_member_def)
qed

end
